theory Spec2Isabelle
  imports Main
begin

section \<open>The ephemeral store\<close>

text \<open>
  The services keep one-time passwords and verification tokens in Django's cache
  (\<^verbatim>\<open>from django.core.cache import cache\<close>). The cache backend is not part of the
  repository; it is modelled by the contract of its three operations. An entry is a value
  together with the instant at which it expires; time is a clock reading in whole seconds,
  passed to every operation that reads or writes the store as \<open>now\<close>.
\<close>

type_synonym store = "string \<Rightarrow> (string \<times> nat) option"

definition cache_set :: "store \<Rightarrow> string \<Rightarrow> string \<Rightarrow> nat \<Rightarrow> nat \<Rightarrow> store" where
  \<comment> \<open>Modelled from the spec: the cache backend's \<^verbatim>\<open>set(key, value, ttl_seconds)\<close>, which
      stores the value, overwriting any entry of the key, to expire after the ttl.\<close>
  "cache_set c key v timeout now = c(key \<mapsto> (v, now + timeout))"

definition cache_get :: "store \<Rightarrow> string \<Rightarrow> nat \<Rightarrow> string option" where
  \<comment> \<open>Modelled from the spec: the cache backend's \<^verbatim>\<open>get(key)\<close>, which returns the value
      or absent (Python's \<^verbatim>\<open>None\<close>), and never returns an expired entry as live.\<close>
  "cache_get c key now =
     (case c key of
        None \<Rightarrow> None
      | Some (v, expires) \<Rightarrow> if expires \<le> now then None else Some v)"

definition cache_delete :: "store \<Rightarrow> string \<Rightarrow> store" where
  \<comment> \<open>Modelled from the spec: the cache backend's \<^verbatim>\<open>delete(key)\<close>, which removes the
      entry if present.\<close>
  "cache_delete c key = c(key := None)"

text \<open>Python's truth value of what \<^verbatim>\<open>cache.get\<close> returned: \<^verbatim>\<open>None\<close> and the empty
  string are false.\<close>

fun truthy :: "string option \<Rightarrow> bool" where
  "truthy None = False"
| "truthy (Some v) = (v \<noteq> [])"

section \<open>Strings\<close>

text \<open>\<^verbatim>\<open>str(n)\<close> of a non-negative integer: its decimal digits.\<close>

definition digit_char :: "nat \<Rightarrow> char" where
  "digit_char d = ''0123456789'' ! d"

function str :: "nat \<Rightarrow> string" where
  "str n = (if n < 10 then [digit_char n] else str (n div 10) @ [digit_char (n mod 10)])"
  by pat_completeness auto
termination
  by (relation "measure id") auto

declare str.simps [simp del]

text \<open>\<^verbatim>\<open>str.capitalize()\<close>, on ASCII letters: the first character in upper case, the
  others in lower case.\<close>

definition upper :: "char \<Rightarrow> char" where
  "upper c = (let n = (of_char c :: nat) in if 97 \<le> n \<and> n \<le> 122 then char_of (n - 32) else c)"

definition lower :: "char \<Rightarrow> char" where
  "lower c = (let n = (of_char c :: nat) in if 65 \<le> n \<and> n \<le> 90 then char_of (n + 32) else c)"

fun capitalize :: "string \<Rightarrow> string" where
  "capitalize [] = []"
| "capitalize (c # cs) = upper c # map lower cs"

section \<open>The OTP generator (accounts/utils.py)\<close>

text \<open>
  \<^verbatim>\<open>random.randint(a, b)\<close> returns an integer of the closed range from \<open>a\<close> to \<open>b\<close>.
  The generator's state is outside the program: the model takes the raw draws as an input,
  \<open>rnd i\<close> for the \<open>i\<close>-th digit of one call, and reduces each into the range.
\<close>

definition randint :: "nat \<Rightarrow> nat \<Rightarrow> nat \<Rightarrow> nat" where
  "randint draw a b = a + draw mod (b - a + 1)"

definition generate_otp :: "(nat \<Rightarrow> nat) \<Rightarrow> nat \<Rightarrow> string" where
  "generate_otp rnd len = concat (map (\<lambda>i. str (randint (rnd i) 0 9)) [0..<len])"

section \<open>Users, mail and the state of the application\<close>

text \<open>
  A stored password is a salted one-way hash. The hash is symbolic: \<open>Hashed salt raw\<close> is
  the hash of \<open>raw\<close> under \<open>salt\<close>, and the only operation on it is the comparison that
  \<^verbatim>\<open>check_password\<close> makes. \<open>Unset\<close> is the password field of an instance before
  \<^verbatim>\<open>set_password\<close>.
\<close>

datatype password_hash = Unset | Hashed string string

text \<open>
  The rows of \<^verbatim>\<open>accounts.User\<close> (accounts/models.py), with the fields the
  authentication flows read or write; \<open>pk\<close> is the row's \<^verbatim>\<open>id\<close>, which an instance has
  once it is saved. The profile fields (phone number, biography, company, ...) take no part
  in these flows.
\<close>

record user =
  pk :: "nat option"
  user_email :: string
  user_password :: password_hash
  first_name :: string
  last_name :: string
  role :: string
  is_active :: bool
  is_staff :: bool
  is_superuser :: bool
  is_verified :: bool
  user_otp :: "string option"
  otp_created_at :: "nat option"

record mail =
  subject :: string
  message :: string
  from_email :: string
  recipient_list :: "string list"

record state =
  cache :: store
  users :: "user list"
  next_pk :: nat
  outbox :: "mail list"

definition empty_state :: state where
  "empty_state = \<lparr>cache = Map.empty, users = [], next_pk = 1, outbox = []\<rparr>"

text \<open>settings.py leaves \<^verbatim>\<open>DEFAULT_FROM_EMAIL\<close> commented out, so Django's default
  stands. \<^verbatim>\<open>send_mail\<close> hands the message to the mail backend (the console backend of
  settings.py), modelled as an outbox.\<close>

definition DEFAULT_FROM_EMAIL :: string where
  "DEFAULT_FROM_EMAIL = ''webmaster@localhost''"

definition send_mail :: "string \<Rightarrow> string \<Rightarrow> string \<Rightarrow> string list \<Rightarrow> state \<Rightarrow> state" where
  "send_mail subj msg sender recipients s =
     s\<lparr>outbox := outbox s @
        [\<lparr>subject = subj, message = msg, from_email = sender, recipient_list = recipients\<rparr>]\<rparr>"

section \<open>Errors and responses\<close>

text \<open>
  An exception is a value. \<^verbatim>\<open>ValidationError\<close> carries either one message or a
  dictionary from field names to messages, as the serializers raise it, or the dictionary
  that the field checks of a serializer build: for each refused field, in the order of the
  fields, the codes of its errors (\<open>required\<close>, \<open>blank\<close>, \<open>min_length\<close>, \<open>unique\<close>, ...).
\<close>

datatype detail =
    Message string
  | Fields "(string \<times> string) list"
  | FieldErrors "(string \<times> string set) list"

datatype error = ValidationError detail | ValueError string | IntegrityError

text \<open>The names the specification gives to the errors of the serializers.\<close>

definition InvalidToken :: error where
  "InvalidToken = ValidationError (Fields [(''verification_token'', ''Invalid or expired token.'')])"

definition InvalidCredentials :: error where
  "InvalidCredentials = ValidationError (Message ''Invalid email or password.'')"

definition AccountDisabled :: error where
  "AccountDisabled = ValidationError (Message ''User account is disabled.'')"

definition UserNotFound :: error where
  "UserNotFound = ValidationError (Fields [(''email'', ''No user found with this email.'')])"

text \<open>
  A signed token of \<^verbatim>\<open>rest_framework_simplejwt\<close>: its type, the user id it carries and
  the instant it expires. The lifetimes are those of \<^verbatim>\<open>SIMPLE_JWT\<close> in settings.py:
  one day for a refresh token, thirty minutes for an access token.
\<close>

datatype jwt = JWT string "nat option" nat

definition REFRESH_TOKEN_LIFETIME :: nat where
  "REFRESH_TOKEN_LIFETIME = 86400"

definition ACCESS_TOKEN_LIFETIME :: nat where
  "ACCESS_TOKEN_LIFETIME = 1800"

definition RefreshToken_for_user :: "user \<Rightarrow> nat \<Rightarrow> jwt" where
  "RefreshToken_for_user u now = JWT ''refresh'' (pk u) (now + REFRESH_TOKEN_LIFETIME)"

fun access_token :: "jwt \<Rightarrow> nat \<Rightarrow> jwt" where
  "access_token (JWT _ uid _) now = JWT ''access'' uid (now + ACCESS_TOKEN_LIFETIME)"

text \<open>The body of a response is a JSON value; an object is a list of keys with their
  values, in the order the view wrote them.\<close>

datatype json = JStr string | JTok jwt | JObj "(string \<times> json) list"

datatype response = Response json nat

fun json_keys :: "json \<Rightarrow> string list" where
  "json_keys (JObj kvs) = map fst kvs"
| "json_keys _ = []"

fun response_data :: "response \<Rightarrow> json" where
  "response_data (Response d _) = d"

fun status_code :: "response \<Rightarrow> nat" where
  "status_code (Response _ st) = st"

definition HTTP_200_OK :: nat where "HTTP_200_OK = 200"
definition HTTP_201_CREATED :: nat where "HTTP_201_CREATED = 201"
definition HTTP_400_BAD_REQUEST :: nat where "HTTP_400_BAD_REQUEST = 400"
definition HTTP_404_NOT_FOUND :: nat where "HTTP_404_NOT_FOUND = 404"

text \<open>\<^verbatim>\<open>str(user.id)\<close>.\<close>

fun str_id :: "nat option \<Rightarrow> string" where
  "str_id None = ''None''"
| "str_id (Some i) = str i"

section \<open>The user table (accounts/models.py)\<close>

text \<open>\<^verbatim>\<open>User.objects.get(email=email)\<close>: the row with that email, or
  \<^verbatim>\<open>User.DoesNotExist\<close> (here \<open>None\<close>). The column is unique.\<close>

definition User_objects_get :: "user list \<Rightarrow> string \<Rightarrow> user option" where
  "User_objects_get rows email = find (\<lambda>u. user_email u = email) rows"

text \<open>
  \<^verbatim>\<open>Model.save()\<close>: an instance without a primary key is inserted, and the unique
  email column refuses a second row of the same email; an instance with a primary key
  updates its row (the flows below never change the email of a stored row).
\<close>

definition Model_save :: "user \<Rightarrow> state \<Rightarrow> error + (user \<times> state)" where
  "Model_save u s =
     (case pk u of
        None \<Rightarrow>
          if user_email u \<in> set (map user_email (users s)) then Inl IntegrityError
          else (let u1 = u\<lparr>pk := Some (next_pk s)\<rparr>
                in Inr (u1, s\<lparr>users := users s @ [u1], next_pk := next_pk s + 1\<rparr>))
      | Some i \<Rightarrow>
          Inr (u, s\<lparr>users := map (\<lambda>v. if pk v = Some i then u else v) (users s)\<rparr>))"

definition make_password :: "string \<Rightarrow> string \<Rightarrow> password_hash" where
  "make_password salt raw = Hashed salt raw"

definition set_password :: "string \<Rightarrow> string \<Rightarrow> user \<Rightarrow> user" where
  "set_password salt raw u = u\<lparr>user_password := make_password salt raw\<rparr>"

definition check_password :: "string \<Rightarrow> user \<Rightarrow> bool" where
  "check_password raw u =
     (case user_password u of Unset \<Rightarrow> False | Hashed salt hashed_raw \<Rightarrow> hashed_raw = raw)"

text \<open>
  \<^verbatim>\<open>BaseUserManager.normalize_email\<close>, on ASCII characters: the part after the last
  \<open>@\<close> in lower case, the surrounding white space stripped; an address without \<open>@\<close> is
  returned as it is.
\<close>

definition isspace :: "char \<Rightarrow> bool" where
  "isspace c = (let n = (of_char c :: nat) in (9 \<le> n \<and> n \<le> 13) \<or> (28 \<le> n \<and> n \<le> 32))"

definition strip :: "string \<Rightarrow> string" where
  "strip cs = rev (dropWhile isspace (rev (dropWhile isspace cs)))"

definition rsplit_at :: "string \<Rightarrow> (string \<times> string) option" where
  "rsplit_at cs =
     (let r = rev cs;
          domain_part = rev (takeWhile (\<lambda>c. c \<noteq> CHR ''@'') r);
          rest = dropWhile (\<lambda>c. c \<noteq> CHR ''@'') r
      in if rest = [] then None else Some (rev (tl rest), domain_part))"

definition normalize_email :: "string \<Rightarrow> string" where
  "normalize_email email =
     (case rsplit_at (strip email) of
        None \<Rightarrow> email
      | Some (email_name, domain_part) \<Rightarrow> email_name @ ''@'' @ map lower domain_part)"

text \<open>The keyword arguments \<^verbatim>\<open>**extra_fields\<close> of the manager; a flag that the caller
  did not pass is \<open>None\<close>.\<close>

record extra_fields =
  ef_first_name :: string
  ef_last_name :: string
  ef_is_staff :: "bool option"
  ef_is_superuser :: "bool option"

fun setdefault :: "bool option \<Rightarrow> bool \<Rightarrow> bool option" where
  "setdefault None d = Some d"
| "setdefault (Some b) d = Some b"

text \<open>\<^verbatim>\<open>self.model(email=email, **extra_fields)\<close>: a new instance, every field that is
  not given at its default in accounts/models.py (\<open>is_active\<close> at that of
  \<^verbatim>\<open>AbstractUser\<close>).\<close>

definition User_model :: "string \<Rightarrow> extra_fields \<Rightarrow> user" where
  "User_model email ef =
     \<lparr>pk = None, user_email = email, user_password = Unset,
      first_name = ef_first_name ef, last_name = ef_last_name ef,
      role = ''job_seeker'', is_active = True,
      is_staff = (case ef_is_staff ef of None \<Rightarrow> False | Some b \<Rightarrow> b),
      is_superuser = (case ef_is_superuser ef of None \<Rightarrow> False | Some b \<Rightarrow> b),
      is_verified = False, user_otp = None, otp_created_at = None\<rparr>"

definition UserManager_create_user_impl ::
    "string \<Rightarrow> string \<Rightarrow> string \<Rightarrow> extra_fields \<Rightarrow> state \<Rightarrow> error + (user \<times> state)" where
  \<comment> \<open>\<^verbatim>\<open>UserManager._create_user\<close>\<close>
  "UserManager_create_user_impl salt email password ef s =
     (if email = [] then Inl (ValueError ''The given email must be set'')
      else (let email1 = normalize_email email;
                u = User_model email1 ef;
                u1 = set_password salt password u
            in Model_save u1 s))"

definition UserManager_create_user ::
    "string \<Rightarrow> string \<Rightarrow> string \<Rightarrow> extra_fields \<Rightarrow> state \<Rightarrow> error + (user \<times> state)" where
  "UserManager_create_user salt email password ef s =
     (let ef1 = ef\<lparr>ef_is_staff := setdefault (ef_is_staff ef) False\<rparr>;
          ef2 = ef1\<lparr>ef_is_superuser := setdefault (ef_is_superuser ef1) False\<rparr>
      in UserManager_create_user_impl salt email password ef2 s)"

section \<open>OTP issuance and verification (accounts/services.py)\<close>

definition OTP_EXPIRE_SECONDS :: nat where
  "OTP_EXPIRE_SECONDS = 300"

definition send_otp_email :: "(nat \<Rightarrow> nat) \<Rightarrow> string \<Rightarrow> string \<Rightarrow> nat \<Rightarrow> state \<Rightarrow> string \<times> state" where
  "send_otp_email rnd email purpose now s =
     (let otp = generate_otp rnd 6;
          cache_key = ''otp:'' @ purpose @ '':'' @ email;
          s1 = s\<lparr>cache := cache_set (cache s) cache_key otp OTP_EXPIRE_SECONDS now\<rparr>;
          subj = ''Your '' @ capitalize purpose @ '' OTP Code'';
          msg = ''Your OTP code is: '' @ otp @ ''. It is valid for 5 minutes.'';
          s2 = send_mail subj msg DEFAULT_FROM_EMAIL [email] s1
      in (otp, s2))"

definition verify_otp :: "string \<Rightarrow> string \<Rightarrow> string \<Rightarrow> nat \<Rightarrow> state \<Rightarrow> bool \<times> state" where
  "verify_otp email otp purpose now s =
     (let cache_key = ''otp:'' @ purpose @ '':'' @ email;
          cached_otp = cache_get (cache s) cache_key now
      in if truthy cached_otp \<and> cached_otp = Some otp
         then (True, s\<lparr>cache := cache_delete (cache s) cache_key\<rparr>)
         else (False, s))"

section \<open>Authentication backends\<close>

text \<open>
  \<^verbatim>\<open>django.contrib.auth.authenticate\<close> asks each backend of
  \<^verbatim>\<open>settings.AUTHENTICATION_BACKENDS\<close> in turn and returns the first user a backend
  gives. The backends are Django's; they are a parameter of the login serializer below.
  settings.py does not set the list, so Django's default stands: the single
  \<^verbatim>\<open>ModelBackend\<close>, which looks the user up by \<^verbatim>\<open>USERNAME_FIELD\<close> (the email),
  checks the password, and returns the user only if \<^verbatim>\<open>user_can_authenticate\<close>, which
  refuses a user whose \<open>is_active\<close> is false. \<^verbatim>\<open>AllowAllUsersModelBackend\<close> is the
  backend of Django that leaves that last check out.
\<close>

type_synonym backend = "user list \<Rightarrow> string \<Rightarrow> string \<Rightarrow> user option"

definition user_can_authenticate :: "user \<Rightarrow> bool" where
  "user_can_authenticate u = is_active u"

definition ModelBackend_authenticate :: backend where
  "ModelBackend_authenticate rows username password =
     (case User_objects_get rows username of
        None \<Rightarrow> None
      | Some u \<Rightarrow> if check_password password u \<and> user_can_authenticate u then Some u else None)"

definition AllowAllUsersModelBackend_authenticate :: backend where
  "AllowAllUsersModelBackend_authenticate rows username password =
     (case User_objects_get rows username of
        None \<Rightarrow> None
      | Some u \<Rightarrow> if check_password password u then Some u else None)"

definition AUTHENTICATION_BACKENDS :: "backend list" where
  "AUTHENTICATION_BACKENDS = [ModelBackend_authenticate]"

fun authenticate :: "backend list \<Rightarrow> user list \<Rightarrow> string \<Rightarrow> string \<Rightarrow> user option" where
  "authenticate [] rows email password = None"
| "authenticate (b # bs) rows email password =
     (case b rows email password of
        None \<Rightarrow> authenticate bs rows email password
      | Some u \<Rightarrow> Some u)"

section \<open>The serializers of the token flow (accounts/serializers.py)\<close>

text \<open>
  A serializer's \<^verbatim>\<open>validate(attrs)\<close> receives the fields of the request after the
  framework has checked each against its declaration (the syntax of the email, the choices
  of the purpose, the lengths); \<open>attrs\<close> below is that dictionary, one record per
  serializer. A request whose fields the framework refuses reaches neither \<open>validate\<close> nor
  the rest of the view.
\<close>

record signup_attrs =
  su_email :: string
  su_first_name :: string
  su_last_name :: string
  su_password :: string
  su_verification_token :: string

record login_attrs =
  li_email :: string
  li_password :: string

record reset_attrs =
  rp_email :: string
  rp_verification_token :: string
  rp_new_password :: string

record verify_attrs =
  vo_email :: string
  vo_purpose :: string
  vo_otp :: string

record request_attrs =
  ro_email :: string
  ro_purpose :: string

subsection \<open>The field checks\<close>

text \<open>
  \<^verbatim>\<open>serializer.is_valid(raise_exception=True)\<close> first runs every declared field on its
  value in the body of the request, collects the errors of all fields, and raises them if
  there are any; only then does it call \<open>validate\<close>. The value of a field in the body is
  absent, JSON null, a value that is neither a string nor a number (\<open>NotText\<close>: a boolean, a
  list, an object), or a string (a number counts as the string \<^verbatim>\<open>str\<close> gives).
\<close>

datatype field_data = Missing | Null | NotText | Text string

text \<open>
  \<^verbatim>\<open>CharField.run_validation\<close>, with the defaults the serializers leave in place
  (\<^verbatim>\<open>required=True\<close>, \<^verbatim>\<open>allow_null=False\<close>, \<^verbatim>\<open>allow_blank=False\<close>,
  \<^verbatim>\<open>trim_whitespace=True\<close>): a string that is blank once stripped is refused, the
  stripped string is handed to every validator of the field, and is the value of the field
  if none objects. Lengths are counted in characters of ASCII text.
\<close>

definition run_validation :: "(string \<Rightarrow> string set) \<Rightarrow> field_data \<Rightarrow> string set + string" where
  "run_validation validators d =
     (case d of
        Missing \<Rightarrow> Inl {''required''}
      | Null \<Rightarrow> Inl {''null''}
      | NotText \<Rightarrow> Inl {''invalid''}
      | Text t \<Rightarrow>
          if strip t = [] then Inl {''blank''}
          else (let v = strip t;
                    errs = validators v
                in if errs = {} then Inr v else Inl errs))"

text \<open>The validators of a \<^verbatim>\<open>CharField(min_length=..., max_length=...)\<close>: the two
  lengths where they are given, and the refusal of a null character.\<close>

definition CharField_validators :: "nat option \<Rightarrow> nat option \<Rightarrow> string \<Rightarrow> string set" where
  "CharField_validators min_length max_length v =
     (case max_length of None \<Rightarrow> {} | Some n \<Rightarrow> if n < length v then {''max_length''} else {}) \<union>
     (case min_length of None \<Rightarrow> {} | Some n \<Rightarrow> if length v < n then {''min_length''} else {}) \<union>
     (if CHR 0x00 \<in> set v then {''null_characters_not_allowed''} else {})"

text \<open>
  An \<^verbatim>\<open>EmailField\<close> adds Django's \<^verbatim>\<open>EmailValidator\<close>. The validator is Django's; its
  verdict on the email of the request is an input of the model, \<open>email_ok\<close>.
\<close>

definition EmailValidator :: "bool \<Rightarrow> string set" where
  "EmailValidator email_ok = (if email_ok then {} else {''invalid''})"

text \<open>
  \<^verbatim>\<open>SignupSerializer\<close> is a \<^verbatim>\<open>ModelSerializer\<close>: its \<open>email\<close>, \<open>first_name\<close> and
  \<open>last_name\<close> fields are built from the columns of accounts/models.py. The unique email
  column brings a \<^verbatim>\<open>UniqueValidator\<close>, which refuses an email that a row of the table
  has, and the length 254 of Django's email column; the names have \<^verbatim>\<open>max_length=30\<close>
  and \<^verbatim>\<open>blank=False\<close>.
\<close>

definition UniqueValidator :: "user list \<Rightarrow> string \<Rightarrow> string set" where
  "UniqueValidator rows v = (if v \<in> set (map user_email rows) then {''unique''} else {})"

fun collect_errors :: "(string \<times> (string set + string)) list \<Rightarrow> (string \<times> string set) list" where
  "collect_errors [] = []"
| "collect_errors ((name, Inl errs) # rest) = (name, errs) # collect_errors rest"
| "collect_errors ((name, Inr v) # rest) = collect_errors rest"

record signup_data =
  sd_email :: field_data
  sd_first_name :: field_data
  sd_last_name :: field_data
  sd_password :: field_data
  sd_verification_token :: field_data

record reset_data =
  rd_email :: field_data
  rd_verification_token :: field_data
  rd_new_password :: field_data

definition SignupSerializer_to_internal_value ::
    "bool \<Rightarrow> signup_data \<Rightarrow> state \<Rightarrow> (string \<times> string set) list + signup_attrs" where
  "SignupSerializer_to_internal_value email_ok data s =
     (let r_email = run_validation
                      (\<lambda>v. UniqueValidator (users s) v \<union> CharField_validators None (Some 254) v \<union>
                           EmailValidator email_ok)
                      (sd_email data);
          r_first = run_validation (CharField_validators None (Some 30)) (sd_first_name data);
          r_last = run_validation (CharField_validators None (Some 30)) (sd_last_name data);
          r_password = run_validation (CharField_validators (Some 6) None) (sd_password data);
          r_token = run_validation (CharField_validators None None) (sd_verification_token data)
      in case (r_email, r_first, r_last, r_password, r_token) of
           (Inr e, Inr f, Inr l, Inr p, Inr t) \<Rightarrow>
             Inr \<lparr>su_email = e, su_first_name = f, su_last_name = l, su_password = p,
                  su_verification_token = t\<rparr>
         | _ \<Rightarrow>
             Inl (collect_errors [(''email'', r_email), (''first_name'', r_first),
                                  (''last_name'', r_last), (''password'', r_password),
                                  (''verification_token'', r_token)]))"

definition ResetPasswordSerializer_to_internal_value ::
    "bool \<Rightarrow> reset_data \<Rightarrow> (string \<times> string set) list + reset_attrs" where
  "ResetPasswordSerializer_to_internal_value email_ok data =
     (let r_email = run_validation
                      (\<lambda>v. CharField_validators None None v \<union> EmailValidator email_ok)
                      (rd_email data);
          r_token = run_validation (CharField_validators None None) (rd_verification_token data);
          r_password = run_validation (CharField_validators (Some 6) None) (rd_new_password data)
      in case (r_email, r_token, r_password) of
           (Inr e, Inr t, Inr p) \<Rightarrow>
             Inr \<lparr>rp_email = e, rp_verification_token = t, rp_new_password = p\<rparr>
         | _ \<Rightarrow>
             Inl (collect_errors [(''email'', r_email), (''verification_token'', r_token),
                                  (''new_password'', r_password)]))"

subsection \<open>The methods of the serializers\<close>

definition SignupSerializer_validate :: "signup_attrs \<Rightarrow> nat \<Rightarrow> state \<Rightarrow> error + signup_attrs" where
  "SignupSerializer_validate attrs now s =
     (let token = su_verification_token attrs;
          email = su_email attrs;
          cache_key = ''verified:register:'' @ token;
          cached_email = cache_get (cache s) cache_key now
      in if \<not> truthy cached_email \<or> cached_email \<noteq> Some email
         then Inl (ValidationError (Fields [(''verification_token'', ''Invalid or expired token.'')]))
         else Inr attrs)"

definition SignupSerializer_create ::
    "string \<Rightarrow> signup_attrs \<Rightarrow> state \<Rightarrow> error + (user \<times> state)" where
  "SignupSerializer_create salt validated_data s =
     (let password = su_password validated_data
      in UserManager_create_user salt (su_email validated_data) password
           \<lparr>ef_first_name = su_first_name validated_data,
            ef_last_name = su_last_name validated_data,
            ef_is_staff = None, ef_is_superuser = None\<rparr> s)"

definition LoginSerializer_validate ::
    "backend list \<Rightarrow> login_attrs \<Rightarrow> state \<Rightarrow> error + (login_attrs \<times> user)" where
  "LoginSerializer_validate backends attrs s =
     (let email = li_email attrs;
          password = li_password attrs
      in case authenticate backends (users s) email password of
           None \<Rightarrow> Inl (ValidationError (Message ''Invalid email or password.''))
         | Some u \<Rightarrow>
             if \<not> is_active u then Inl (ValidationError (Message ''User account is disabled.''))
             else Inr (attrs, u))"

definition LoginSerializer_create :: "login_attrs \<times> user \<Rightarrow> nat \<Rightarrow> json" where
  "LoginSerializer_create validated_data now =
     (let u = snd validated_data;
          refresh = RefreshToken_for_user u now
      in JObj [(''user'', JObj [(''id'', JStr (str_id (pk u))),
                                (''email'', JStr (user_email u)),
                                (''first_name'', JStr (first_name u)),
                                (''last_name'', JStr (last_name u))]),
               (''refresh'', JTok refresh),
               (''access'', JTok (access_token refresh now))])"

definition ResetPasswordSerializer_validate :: "reset_attrs \<Rightarrow> nat \<Rightarrow> state \<Rightarrow> error + reset_attrs" where
  "ResetPasswordSerializer_validate attrs now s =
     (let email = rp_email attrs;
          token = rp_verification_token attrs;
          cache_key = ''verified:reset:'' @ token;
          cached_email = cache_get (cache s) cache_key now
      in if \<not> truthy cached_email \<or> cached_email \<noteq> Some email
         then Inl (ValidationError (Fields [(''verification_token'', ''Invalid or expired token.'')]))
         else Inr attrs)"

definition ResetPasswordSerializer_save ::
    "string \<Rightarrow> reset_attrs \<Rightarrow> state \<Rightarrow> error + (user \<times> state)" where
  "ResetPasswordSerializer_save salt validated_data s =
     (let email = rp_email validated_data;
          password = rp_new_password validated_data
      in case User_objects_get (users s) email of
           None \<Rightarrow> Inl (ValidationError (Fields [(''email'', ''No user found with this email.'')]))
         | Some u \<Rightarrow> Model_save (set_password salt password u) s)"

text \<open>\<^verbatim>\<open>is_valid\<close>: the field checks, then \<open>validate\<close> on the values they give.\<close>

definition SignupSerializer_is_valid ::
    "bool \<Rightarrow> signup_data \<Rightarrow> nat \<Rightarrow> state \<Rightarrow> error + signup_attrs" where
  "SignupSerializer_is_valid email_ok data now s =
     (case SignupSerializer_to_internal_value email_ok data s of
        Inl errors \<Rightarrow> Inl (ValidationError (FieldErrors errors))
      | Inr attrs \<Rightarrow> SignupSerializer_validate attrs now s)"

definition ResetPasswordSerializer_is_valid ::
    "bool \<Rightarrow> reset_data \<Rightarrow> nat \<Rightarrow> state \<Rightarrow> error + reset_attrs" where
  "ResetPasswordSerializer_is_valid email_ok data now s =
     (case ResetPasswordSerializer_to_internal_value email_ok data of
        Inl errors \<Rightarrow> Inl (ValidationError (FieldErrors errors))
      | Inr attrs \<Rightarrow> ResetPasswordSerializer_validate attrs now s)"

section \<open>The views of the token flow (accounts/views.py)\<close>

text \<open>
  A view takes the request, the clock and the state of the application, and returns the
  response, or the exception that leaves it, together with the state it leaves behind.
  \<open>SignupView.post\<close> and \<open>ResetPasswordView.post\<close> take the body of the request and run
  \<open>is_valid\<close> on it; the other three take the values that the field checks of their
  serializers have let through.
  \<open>uuid4\<close> is the string of the random UUID the view draws, \<open>salt\<close> the salt the password
  hasher draws. In the words of the specification,
  \<open>RequestOTPView.post\<close> is \<open>request_otp\<close>, \<open>VerifyOTPView.post\<close> is \<open>verify_otp\<close> followed by
  the exchange for a verification token, \<open>SignupView.post\<close> is \<open>complete_registration\<close>,
  \<open>LoginView.post\<close> is \<open>login\<close> and \<open>ResetPasswordView.post\<close> is \<open>reset_password\<close>.
\<close>

definition RequestOTPView_post ::
    "(nat \<Rightarrow> nat) \<Rightarrow> request_attrs \<Rightarrow> nat \<Rightarrow> state \<Rightarrow> (error + response) \<times> state" where
  "RequestOTPView_post rnd validated_data now s =
     (let email = ro_email validated_data;
          purpose = ro_purpose validated_data;
          s1 = snd (send_otp_email rnd email purpose now s)
      in (Inr (Response
                (JObj [(''detail'', JStr (''OTP has been sent to '' @ email @ ''. It is valid for 5 minutes.''))])
                HTTP_200_OK), s1))"

definition VerifyOTPView_post ::
    "string \<Rightarrow> verify_attrs \<Rightarrow> nat \<Rightarrow> state \<Rightarrow> (error + response) \<times> state" where
  "VerifyOTPView_post uuid4 validated_data now s =
     (let email = vo_email validated_data;
          otp = vo_otp validated_data;
          purpose = vo_purpose validated_data;
          (ok, s1) = verify_otp email otp purpose now s
      in if ok
         then (let token = uuid4;
                   cache_key = ''verified:'' @ purpose @ '':'' @ token;
                   s2 = s1\<lparr>cache := cache_set (cache s1) cache_key email 600 now\<rparr>
               in (Inr (Response
                         (JObj [(''detail'', JStr ''OTP verified successfully.''),
                                (''verification_token'', JStr token)])
                         HTTP_200_OK), s2))
         else (Inr (Response (JObj [(''detail'', JStr ''Invalid or expired OTP.'')])
                     HTTP_400_BAD_REQUEST), s1))"

definition SignupView_post ::
    "bool \<Rightarrow> string \<Rightarrow> signup_data \<Rightarrow> nat \<Rightarrow> state \<Rightarrow> (error + response) \<times> state" where
  "SignupView_post email_ok salt request_data now s =
     (case SignupSerializer_is_valid email_ok request_data now s of
        Inl e \<Rightarrow> (Inl e, s)
      | Inr validated_data \<Rightarrow>
          (case SignupSerializer_create salt validated_data s of
             Inl e \<Rightarrow> (Inl e, s)
           | Inr (u, s1) \<Rightarrow>
               (let refresh = RefreshToken_for_user u now;
                    data = JObj [(''user'', JObj [(''id'', JStr (str_id (pk u))),
                                                  (''email'', JStr (user_email u)),
                                                  (''first_name'', JStr (first_name u)),
                                                  (''last_name'', JStr (last_name u))]),
                                 (''refresh'', JTok refresh),
                                 (''access'', JTok (access_token refresh now))]
                in (Inr (Response data HTTP_201_CREATED), s1))))"

definition LoginView_post ::
    "backend list \<Rightarrow> login_attrs \<Rightarrow> nat \<Rightarrow> state \<Rightarrow> (error + response) \<times> state" where
  "LoginView_post backends attrs now s =
     (case LoginSerializer_validate backends attrs s of
        Inl e \<Rightarrow> (Inl e, s)
      | Inr validated_data \<Rightarrow>
          (let tokens = LoginSerializer_create validated_data now
           in (Inr (Response tokens HTTP_200_OK), s)))"

definition ResetPasswordView_post ::
    "bool \<Rightarrow> string \<Rightarrow> reset_data \<Rightarrow> nat \<Rightarrow> state \<Rightarrow> (error + response) \<times> state" where
  "ResetPasswordView_post email_ok salt request_data now s =
     (case ResetPasswordSerializer_is_valid email_ok request_data now s of
        Inl e \<Rightarrow> (Inl e, s)
      | Inr validated_data \<Rightarrow>
          (case ResetPasswordSerializer_save salt validated_data s of
             Inl e \<Rightarrow> (Inl e, s)
           | Inr (u, s1) \<Rightarrow>
               (Inr (Response (JObj [(''detail'', JStr ''Password has been reset successfully.'')])
                      HTTP_200_OK), s1)))"

section \<open>The verification of the legacy flow (JOB_PORTAL/accounts/views.py)\<close>

text \<open>
  \<^verbatim>\<open>VerifyEmailView.post\<close> checks the code kept on the user's row, after
  \<^verbatim>\<open>VerifyEmailSerializer.validate_email\<close> has refused an email without a user.
\<close>

definition VerifyEmailSerializer_validate_email :: "string \<Rightarrow> state \<Rightarrow> error + string" where
  "VerifyEmailSerializer_validate_email v s =
     (if User_objects_get (users s) v = None
      then Inl (ValidationError (Fields [(''email'', ''User with this email does not exist.'')]))
      else Inr v)"

definition VerifyEmailView_post ::
    "string \<Rightarrow> string \<Rightarrow> nat \<Rightarrow> state \<Rightarrow> (error + response) \<times> state" where
  "VerifyEmailView_post email otp now s =
     (case VerifyEmailSerializer_validate_email email s of
        Inl e \<Rightarrow> (Inl e, s)
      | Inr email1 \<Rightarrow>
          (case User_objects_get (users s) email1 of
             None \<Rightarrow>
               (Inr (Response (JObj [(''detail'', JStr ''User with this email does not exist.'')])
                      HTTP_404_NOT_FOUND), s)
           | Some u \<Rightarrow>
               if \<not> truthy (user_otp u)
               then (Inr (Response
                           (JObj [(''detail'', JStr ''No OTP generated for this user. Please request a new one.'')])
                           HTTP_400_BAD_REQUEST), s)
               else if user_otp u \<noteq> Some otp
               then (Inr (Response
                           (JObj [(''detail'', JStr ''Invalid OTP. Please check the code and try again.'')])
                           HTTP_400_BAD_REQUEST), s)
               else if (case otp_created_at u of None \<Rightarrow> False | Some t \<Rightarrow> now - t > 300)
               then (Inr (Response
                           (JObj [(''detail'', JStr ''OTP has expired. Please request a new one.'')])
                           HTTP_400_BAD_REQUEST), s)
               else (case Model_save (u\<lparr>is_verified := True, user_otp := None, otp_created_at := None\<rparr>) s of
                       Inl e \<Rightarrow> (Inl e, s)
                     | Inr (u1, s1) \<Rightarrow>
                         (Inr (Response
                                (JObj [(''detail'', JStr ''Email verified successfully. You can now login.'')])
                                HTTP_200_OK), s1))))"

section \<open>Stored rows and example states\<close>

text \<open>
  Every row of the user table has a primary key: \<open>Model_save\<close> gives one to the instance it
  inserts, and the empty table has no row. The views keep this property of the state.
\<close>

definition rows_saved :: "state \<Rightarrow> bool" where
  "rows_saved s = list_all (\<lambda>u. pk u \<noteq> None) (users s)"

text \<open>The states and requests at which the theorems below are instantiated: a user as
  \<open>SignupView.post\<close> creates her, her requests, a store holding a registration token or a
  reset token for her email, a table that holds her account, and one in which her account
  is disabled.\<close>

definition alice :: user where
  "alice = \<lparr>pk = Some 1, user_email = ''a@x.com'', user_password = Hashed ''salt'' ''secret1'',
            first_name = ''A'', last_name = ''X'', role = ''job_seeker'', is_active = True,
            is_staff = False, is_superuser = False, is_verified = False,
            user_otp = None, otp_created_at = None\<rparr>"

definition alice_signup :: signup_attrs where
  "alice_signup = \<lparr>su_email = ''a@x.com'', su_first_name = ''A'', su_last_name = ''X'',
                   su_password = ''secret1'', su_verification_token = ''tok''\<rparr>"

definition alice_signup_data :: signup_data where
  "alice_signup_data = \<lparr>sd_email = Text ''a@x.com'', sd_first_name = Text ''A'', sd_last_name = Text ''X'',
                        sd_password = Text ''secret1'', sd_verification_token = Text ''tok''\<rparr>"

definition register_token_state :: state where
  "register_token_state = empty_state\<lparr>cache := [''verified:register:tok'' \<mapsto> (''a@x.com'', 610)]\<rparr>"

definition alice_login :: login_attrs where
  "alice_login = \<lparr>li_email = ''a@x.com'', li_password = ''secret1''\<rparr>"

definition alice_reset :: reset_attrs where
  "alice_reset = \<lparr>rp_email = ''a@x.com'', rp_verification_token = ''tok2'', rp_new_password = ''secret2''\<rparr>"

definition alice_reset_data :: reset_data where
  "alice_reset_data = \<lparr>rd_email = Text ''a@x.com'', rd_verification_token = Text ''tok2'',
                       rd_new_password = Text ''secret2''\<rparr>"

definition reset_token_state :: state where
  "reset_token_state =
     empty_state\<lparr>cache := [''verified:reset:tok2'' \<mapsto> (''a@x.com'', 700)], users := [alice], next_pk := 2\<rparr>"

definition taken_state :: state where
  "taken_state = empty_state\<lparr>users := [alice], next_pk := 2\<rparr>"

definition disabled_state :: state where
  "disabled_state = empty_state\<lparr>users := [alice\<lparr>is_active := False\<rparr>], next_pk := 2\<rparr>"

section \<open>Properties of the OTP service\<close>

lemma str_digit: "d < 10 \<Longrightarrow> str d = [digit_char d]"
  by (simp add: str.simps)

lemma randint_digit: "randint draw 0 9 < 10"
  by (simp add: randint_def)

lemma length_generate_otp: "length (generate_otp rnd len) = len"
  by (simp add: generate_otp_def length_concat comp_def str_digit randint_digit sum_list_triv)

lemma generate_otp_nonempty: "generate_otp rnd 6 \<noteq> []"
proof
  assume "generate_otp rnd 6 = []"
  then have "length (generate_otp rnd 6) = 0"
    by simp
  then show False
    by (simp add: length_generate_otp)
qed

lemma send_otp_email_code: "fst (send_otp_email rnd email purpose now s) = generate_otp rnd 6"
  by (simp add: send_otp_email_def Let_def)

lemma send_otp_email_cache:
  "cache (snd (send_otp_email rnd email purpose now s)) =
     (cache s)(''otp:'' @ purpose @ '':'' @ email \<mapsto> (generate_otp rnd 6, now + 300))"
  by (simp add: send_otp_email_def Let_def send_mail_def cache_set_def OTP_EXPIRE_SECONDS_def)

lemma send_otp_email_frame:
  "users (snd (send_otp_email rnd email purpose now s)) = users s \<and>
   next_pk (snd (send_otp_email rnd email purpose now s)) = next_pk s"
  by (simp add: send_otp_email_def Let_def send_mail_def)

lemma verify_otp_success_iff:
  "fst (verify_otp email otp purpose now s) \<longleftrightarrow>
     otp \<noteq> [] \<and> cache_get (cache s) (''otp:'' @ purpose @ '':'' @ email) now = Some otp"
  by (auto simp: verify_otp_def Let_def)

lemma verify_otp_success_state:
  "fst (verify_otp email otp purpose now s) \<Longrightarrow>
     snd (verify_otp email otp purpose now s) =
       s\<lparr>cache := cache_delete (cache s) (''otp:'' @ purpose @ '':'' @ email)\<rparr>"
  by (auto simp: verify_otp_def Let_def split: if_splits)

lemma verify_otp_failure_state:
  "\<not> fst (verify_otp email otp purpose now s) \<Longrightarrow> snd (verify_otp email otp purpose now s) = s"
  by (auto simp: verify_otp_def Let_def split: if_splits)

lemma cache_get_deleted: "cache_get (cache_delete c key) key now = None"
  by (simp add: cache_get_def cache_delete_def)

lemma cache_get_live: "c key = Some (v, expires) \<Longrightarrow> now < expires \<Longrightarrow> cache_get c key now = Some v"
  by (simp add: cache_get_def)

lemma generate_otp_example: "generate_otp id 6 = ''012345''"
  by (simp add: generate_otp_def upt_rec str_digit randint_def digit_char_def)

lemma VerifyOTPView_post_failure:
  "\<not> fst (verify_otp (vo_email a) (vo_otp a) (vo_purpose a) now s) \<Longrightarrow>
     VerifyOTPView_post uuid4 a now s =
       (Inr (Response (JObj [(''detail'', JStr ''Invalid or expired OTP.'')]) HTTP_400_BAD_REQUEST), s)"
  using verify_otp_failure_state [of "vo_email a" "vo_otp a" "vo_purpose a" now s]
  by (simp add: VerifyOTPView_post_def Let_def split_beta)

lemma generate_otp_example2: "generate_otp Suc 6 = ''123456''"
  by (simp add: generate_otp_def upt_rec str_digit randint_def digit_char_def)

section \<open>Properties of the serializers and the views\<close>

lemma SignupSerializer_validate_cases:
  "SignupSerializer_validate attrs now s =
     (if su_email attrs \<noteq> [] \<and>
         cache_get (cache s) (''verified:register:'' @ su_verification_token attrs) now = Some (su_email attrs)
      then Inr attrs else Inl InvalidToken)"
  by (auto simp: SignupSerializer_validate_def InvalidToken_def Let_def)

lemma ResetPasswordSerializer_validate_cases:
  "ResetPasswordSerializer_validate attrs now s =
     (if rp_email attrs \<noteq> [] \<and>
         cache_get (cache s) (''verified:reset:'' @ rp_verification_token attrs) now = Some (rp_email attrs)
      then Inr attrs else Inl InvalidToken)"
  by (auto simp: ResetPasswordSerializer_validate_def InvalidToken_def Let_def)

lemma cache_get_cong: "c1 key = c2 key \<Longrightarrow> cache_get c1 key now = cache_get c2 key now"
  by (simp add: cache_get_def)

lemma VerifyOTPView_post_success:
  "fst (verify_otp (vo_email a) (vo_otp a) (vo_purpose a) now s) \<Longrightarrow>
     VerifyOTPView_post uuid4 a now s =
       (Inr (Response (JObj [(''detail'', JStr ''OTP verified successfully.''),
                             (''verification_token'', JStr uuid4)]) HTTP_200_OK),
        s\<lparr>cache := (cache s)(''otp:'' @ vo_purpose a @ '':'' @ vo_email a := None,
                              ''verified:'' @ vo_purpose a @ '':'' @ uuid4 \<mapsto> (vo_email a, now + 600))\<rparr>)"
  using verify_otp_success_state [of "vo_email a" "vo_otp a" "vo_purpose a" now s]
  by (simp add: VerifyOTPView_post_def Let_def split_beta cache_set_def cache_delete_def)

lemma Model_save_frame:
  "Model_save u s = Inr (u1, s1) \<Longrightarrow> cache s1 = cache s \<and> outbox s1 = outbox s"
  by (auto simp: Model_save_def Let_def split: option.splits if_splits)

lemma SignupSerializer_create_frame:
  "SignupSerializer_create salt a s = Inr (u1, s1) \<Longrightarrow> cache s1 = cache s \<and> outbox s1 = outbox s"
  by (auto simp: SignupSerializer_create_def UserManager_create_user_def
        UserManager_create_user_impl_def Let_def dest: Model_save_frame split: if_splits)

lemma ResetPasswordSerializer_save_frame:
  "ResetPasswordSerializer_save salt a s = Inr (u1, s1) \<Longrightarrow> cache s1 = cache s \<and> outbox s1 = outbox s"
  by (auto simp: ResetPasswordSerializer_save_def Let_def dest: Model_save_frame split: option.splits)

lemma register_key_not_reset_key: "''verified:register:'' @ t \<noteq> ''verified:reset:'' @ t'"
  by simp

lemma otp_key_not_verified_key: "''otp:'' @ p @ '':'' @ e \<noteq> ''verified:'' @ q"
  by simp

section \<open>Properties of the user table\<close>

lemma normalize_email_example: "normalize_email ''a@x.com'' = ''a@x.com''"
  by code_simp

lemma normalize_email_example2: "normalize_email ''A@X.COM'' = ''A@x.com''"
  by code_simp

lemma capitalize_example: "capitalize ''register'' = ''Register''"
  by code_simp

lemma Model_save_insert:
  "pk u = None \<Longrightarrow> user_email u \<notin> set (map user_email (users s)) \<Longrightarrow>
     Model_save u s = Inr (u\<lparr>pk := Some (next_pk s)\<rparr>,
                           s\<lparr>users := users s @ [u\<lparr>pk := Some (next_pk s)\<rparr>], next_pk := next_pk s + 1\<rparr>)"
  by (simp add: Model_save_def Let_def)

lemma Model_save_insert_result:
  "pk u = None \<Longrightarrow> Model_save u s = Inr (u1, s1) \<Longrightarrow>
     u1 = u\<lparr>pk := Some (next_pk s)\<rparr> \<and> users s1 = users s @ [u1]"
  by (auto simp: Model_save_def Let_def split: if_splits)

lemma Model_save_update:
  "pk u = Some i \<Longrightarrow>
     Model_save u s = Inr (u, s\<lparr>users := map (\<lambda>v. if pk v = Some i then u else v) (users s)\<rparr>)"
  by (simp add: Model_save_def)

lemma SignupSerializer_create_result:
  assumes "SignupSerializer_create salt a s = Inr (u1, s1)"
  shows "users s1 = users s @ [u1] \<and>
         u1 = (set_password salt (su_password a)
                 (User_model (normalize_email (su_email a))
                    \<lparr>ef_first_name = su_first_name a, ef_last_name = su_last_name a,
                     ef_is_staff = Some False, ef_is_superuser = Some False\<rparr>))\<lparr>pk := Some (next_pk s)\<rparr>"
proof -
  let ?u = "set_password salt (su_password a)
                 (User_model (normalize_email (su_email a))
                    \<lparr>ef_first_name = su_first_name a, ef_last_name = su_last_name a,
                     ef_is_staff = Some False, ef_is_superuser = Some False\<rparr>)"
  have new: "pk ?u = None"
    by (simp add: set_password_def User_model_def)
  from assms have "Model_save ?u s = Inr (u1, s1)"
    by (simp add: SignupSerializer_create_def UserManager_create_user_def
          UserManager_create_user_impl_def Let_def split: if_splits)
  from Model_save_insert_result [OF new this] show ?thesis
    by simp
qed

lemma SignupSerializer_create_succeeds:
  assumes "su_email a \<noteq> []" "normalize_email (su_email a) \<notin> set (map user_email (users s))"
  shows "\<exists>u1 s1. SignupSerializer_create salt a s = Inr (u1, s1)"
  using assms
  by (simp add: SignupSerializer_create_def UserManager_create_user_def
        UserManager_create_user_impl_def Let_def Model_save_def set_password_def User_model_def)

lemma find_update_row:
  "find (\<lambda>v. user_email v = e) rows = Some u \<Longrightarrow> user_email u1 = e \<Longrightarrow>
     find (\<lambda>v. user_email v = e) (map (\<lambda>v. if pk v = pk u then u1 else v) rows) = Some u1"
  by (induction rows) (auto split: if_splits)

lemma User_objects_get_email: "User_objects_get rows e = Some u \<Longrightarrow> user_email u = e"
  by (auto simp: User_objects_get_def find_Some_iff)

lemma check_password_set_password: "check_password raw (set_password salt raw u)"
  by (simp add: check_password_def set_password_def make_password_def)

lemma str_1: "str (Suc 0) = ''1''"
  by (simp add: str.simps digit_char_def)

lemma rows_saved_empty: "rows_saved empty_state"
  by (simp add: rows_saved_def empty_state_def)

lemma rows_saved_get: "rows_saved s \<Longrightarrow> User_objects_get (users s) e = Some u \<Longrightarrow> \<exists>i. pk u = Some i"
  by (auto simp: rows_saved_def User_objects_get_def find_Some_iff list_all_length)

lemma Model_save_rows_saved: "rows_saved s \<Longrightarrow> Model_save u s = Inr (u1, s1) \<Longrightarrow> rows_saved s1"
  by (auto simp: rows_saved_def Model_save_def Let_def list_all_iff split: option.splits if_splits)

lemma VerifyOTPView_post_rows_saved:
  "rows_saved s \<Longrightarrow> rows_saved (snd (VerifyOTPView_post uuid4 a now s))"
  by (auto simp: VerifyOTPView_post_def verify_otp_def rows_saved_def Let_def split: if_splits)

lemma RequestOTPView_post_rows_saved:
  "rows_saved s \<Longrightarrow> rows_saved (snd (RequestOTPView_post rnd a now s))"
  by (simp add: RequestOTPView_post_def rows_saved_def Let_def send_otp_email_frame)

lemma LoginView_post_state: "snd (LoginView_post backends a now s) = s"
  by (simp add: LoginView_post_def split: sum.splits)

lemma authenticate_default:
  "authenticate AUTHENTICATION_BACKENDS rows email password = ModelBackend_authenticate rows email password"
  by (simp add: AUTHENTICATION_BACKENDS_def split: option.splits)

lemma ModelBackend_authenticate_active:
  "ModelBackend_authenticate rows email password = Some u \<Longrightarrow> is_active u"
  by (auto simp: ModelBackend_authenticate_def user_can_authenticate_def split: option.splits if_splits)

lemma InvalidCredentials_not_AccountDisabled: "InvalidCredentials \<noteq> AccountDisabled"
  by (simp add: InvalidCredentials_def AccountDisabled_def)

lemma login_never_AccountDisabled:
  "LoginSerializer_validate AUTHENTICATION_BACKENDS a s \<noteq> Inl AccountDisabled"
proof (cases "ModelBackend_authenticate (users s) (li_email a) (li_password a)")
  case None
  then have "LoginSerializer_validate AUTHENTICATION_BACKENDS a s = Inl InvalidCredentials"
    by (simp add: LoginSerializer_validate_def authenticate_default InvalidCredentials_def)
  then show ?thesis
    by (simp add: InvalidCredentials_not_AccountDisabled)
next
  case (Some u)
  then have "is_active u"
    by (rule ModelBackend_authenticate_active)
  with Some show ?thesis
    by (simp add: LoginSerializer_validate_def authenticate_default)
qed

lemma login_AllowAllUsersModelBackend:
  assumes "User_objects_get (users s) (li_email a) = Some u"
      and "check_password (li_password a) u"
      and "\<not> is_active u"
  shows "LoginSerializer_validate [AllowAllUsersModelBackend_authenticate] a s = Inl AccountDisabled"
  using assms
  by (simp add: LoginSerializer_validate_def AllowAllUsersModelBackend_authenticate_def AccountDisabled_def)

lemma ResetPasswordSerializer_save_found:
  assumes found: "User_objects_get (users s) (rp_email a) = Some u"
      and saved: "pk u = Some i"
  shows "ResetPasswordSerializer_save salt a s =
           Inr (set_password salt (rp_new_password a) u,
                s\<lparr>users := map (\<lambda>v. if pk v = Some i then set_password salt (rp_new_password a) u else v) (users s)\<rparr>)"
  using assms by (simp add: ResetPasswordSerializer_save_def Let_def Model_save_update set_password_def)

section \<open>Properties of the field checks\<close>

lemma run_validation_Inr:
  "run_validation validators d = Inr v \<longleftrightarrow>
     (\<exists>t. d = Text t \<and> v = strip t \<and> v \<noteq> [] \<and> validators v = {})"
  by (auto simp: run_validation_def Let_def split: field_data.splits)

lemma CharField_validators_min_length:
  "CharField_validators (Some n) max_length v = {} \<Longrightarrow> n \<le> length v"
  by (auto simp: CharField_validators_def split: if_splits option.splits)

lemma strip_example_email: "strip ''a@x.com'' = ''a@x.com''"
  by code_simp

lemma strip_examples:
  "strip ''A'' = ''A''" "strip ''X'' = ''X''" "strip ''secret1'' = ''secret1''"
  "strip ''secret2'' = ''secret2''" "strip ''tok'' = ''tok''" "strip ''tok2'' = ''tok2''"
  "strip ''nope'' = ''nope''" "strip ''abc'' = ''abc''"
  by code_simp+

lemma SignupSerializer_to_internal_value_password:
  "SignupSerializer_to_internal_value email_ok data s = Inr a \<Longrightarrow>
     6 \<le> length (su_password a) \<and> su_email a \<notin> set (map user_email (users s)) \<and> email_ok"
  by (auto simp: SignupSerializer_to_internal_value_def Let_def run_validation_Inr
        UniqueValidator_def EmailValidator_def
        dest: CharField_validators_min_length split: sum.splits if_splits)

lemma ResetPasswordSerializer_to_internal_value_Inr:
  "ResetPasswordSerializer_to_internal_value email_ok data = Inr a \<longleftrightarrow>
     (\<exists>e t p. rd_email data = Text e \<and> rd_verification_token data = Text t \<and>
              rd_new_password data = Text p \<and>
              a = \<lparr>rp_email = strip e, rp_verification_token = strip t, rp_new_password = strip p\<rparr> \<and>
              strip e \<noteq> [] \<and> strip t \<noteq> [] \<and> strip p \<noteq> [] \<and>
              CharField_validators None None (strip e) \<union> EmailValidator email_ok = {} \<and>
              CharField_validators None None (strip t) = {} \<and>
              CharField_validators (Some 6) None (strip p) = {})"
proof
  assume "ResetPasswordSerializer_to_internal_value email_ok data = Inr a"
  then show "\<exists>e t p. rd_email data = Text e \<and> rd_verification_token data = Text t \<and>
              rd_new_password data = Text p \<and>
              a = \<lparr>rp_email = strip e, rp_verification_token = strip t, rp_new_password = strip p\<rparr> \<and>
              strip e \<noteq> [] \<and> strip t \<noteq> [] \<and> strip p \<noteq> [] \<and>
              CharField_validators None None (strip e) \<union> EmailValidator email_ok = {} \<and>
              CharField_validators None None (strip t) = {} \<and>
              CharField_validators (Some 6) None (strip p) = {}"
    by (auto simp: ResetPasswordSerializer_to_internal_value_def Let_def run_validation_Inr
          split: sum.splits)
next
  assume "\<exists>e t p. rd_email data = Text e \<and> rd_verification_token data = Text t \<and>
              rd_new_password data = Text p \<and>
              a = \<lparr>rp_email = strip e, rp_verification_token = strip t, rp_new_password = strip p\<rparr> \<and>
              strip e \<noteq> [] \<and> strip t \<noteq> [] \<and> strip p \<noteq> [] \<and>
              CharField_validators None None (strip e) \<union> EmailValidator email_ok = {} \<and>
              CharField_validators None None (strip t) = {} \<and>
              CharField_validators (Some 6) None (strip p) = {}"
  then show "ResetPasswordSerializer_to_internal_value email_ok data = Inr a"
    by (auto simp: ResetPasswordSerializer_to_internal_value_def Let_def run_validation_def)
qed

lemma ResetPasswordSerializer_to_internal_value_password:
  "ResetPasswordSerializer_to_internal_value email_ok data = Inr a \<Longrightarrow> 6 \<le> length (rp_new_password a)"
  by (auto simp: ResetPasswordSerializer_to_internal_value_Inr dest: CharField_validators_min_length)

lemma SignupView_post_field_errors:
  "SignupSerializer_to_internal_value email_ok data s = Inl errors \<Longrightarrow>
     SignupView_post email_ok salt data now s = (Inl (ValidationError (FieldErrors errors)), s)"
  by (simp add: SignupView_post_def SignupSerializer_is_valid_def)

lemma ResetPasswordView_post_field_errors:
  "ResetPasswordSerializer_to_internal_value email_ok data = Inl errors \<Longrightarrow>
     ResetPasswordView_post email_ok salt data now s = (Inl (ValidationError (FieldErrors errors)), s)"
  by (simp add: ResetPasswordView_post_def ResetPasswordSerializer_is_valid_def)

lemma SignupView_post_invalid:
  "SignupSerializer_to_internal_value email_ok data s = Inr a \<Longrightarrow>
   SignupSerializer_validate a now s = Inl e \<Longrightarrow>
     SignupView_post email_ok salt data now s = (Inl e, s)"
  by (simp add: SignupView_post_def SignupSerializer_is_valid_def)

lemma ResetPasswordView_post_invalid:
  "ResetPasswordSerializer_to_internal_value email_ok data = Inr a \<Longrightarrow>
   ResetPasswordSerializer_validate a now s = Inl e \<Longrightarrow>
     ResetPasswordView_post email_ok salt data now s = (Inl e, s)"
  by (simp add: ResetPasswordView_post_def ResetPasswordSerializer_is_valid_def)

lemma SignupView_post_success:
  "SignupView_post email_ok salt data now s = (Inr resp, s1) \<Longrightarrow>
     \<exists>a u. SignupSerializer_to_internal_value email_ok data s = Inr a \<and>
           SignupSerializer_validate a now s = Inr a \<and>
           SignupSerializer_create salt a s = Inr (u, s1)"
  by (auto simp: SignupView_post_def SignupSerializer_is_valid_def SignupSerializer_validate_cases
        Let_def split: sum.splits if_splits)

lemma ResetPasswordView_post_success:
  "ResetPasswordView_post email_ok salt data now s = (Inr resp, s1) \<Longrightarrow>
     \<exists>a u. ResetPasswordSerializer_to_internal_value email_ok data = Inr a \<and>
           ResetPasswordSerializer_validate a now s = Inr a \<and>
           ResetPasswordSerializer_save salt a s = Inr (u, s1)"
  by (auto simp: ResetPasswordView_post_def ResetPasswordSerializer_is_valid_def
        ResetPasswordSerializer_validate_cases Let_def split: sum.splits if_splits)

lemma ResetPasswordView_post_saved:
  "ResetPasswordSerializer_to_internal_value email_ok data = Inr a \<Longrightarrow>
   ResetPasswordSerializer_validate a now s = Inr a \<Longrightarrow>
   ResetPasswordSerializer_save salt a s = Inr (u, s1) \<Longrightarrow>
     ResetPasswordView_post email_ok salt data now s =
       (Inr (Response (JObj [(''detail'', JStr ''Password has been reset successfully.'')]) HTTP_200_OK), s1)"
  by (simp add: ResetPasswordView_post_def ResetPasswordSerializer_is_valid_def)

lemma ResetPasswordView_post_save_error:
  "ResetPasswordSerializer_to_internal_value email_ok data = Inr a \<Longrightarrow>
   ResetPasswordSerializer_validate a now s = Inr a \<Longrightarrow>
   ResetPasswordSerializer_save salt a s = Inl e \<Longrightarrow>
     ResetPasswordView_post email_ok salt data now s = (Inl e, s)"
  by (simp add: ResetPasswordView_post_def ResetPasswordSerializer_is_valid_def)

lemma SignupView_post_succeeds:
  assumes "SignupSerializer_to_internal_value email_ok data s = Inr a"
      and "SignupSerializer_validate a now s = Inr a"
      and "normalize_email (su_email a) \<notin> set (map user_email (users s))"
  shows "\<exists>resp s1. SignupView_post email_ok salt data now s = (Inr resp, s1)"
proof -
  from assms(2) have "su_email a \<noteq> []"
    by (simp add: SignupSerializer_validate_cases split: if_splits)
  from SignupSerializer_create_succeeds [OF this assms(3), of salt]
  obtain u1 s1 where "SignupSerializer_create salt a s = Inr (u1, s1)"
    by blast
  with assms(1,2) show ?thesis
    by (simp add: SignupView_post_def SignupSerializer_is_valid_def Let_def)
qed

lemma alice_signup_fields:
  "SignupSerializer_to_internal_value True alice_signup_data register_token_state = Inr alice_signup"
  by (simp add: SignupSerializer_to_internal_value_def run_validation_def CharField_validators_def
        UniqueValidator_def EmailValidator_def alice_signup_data_def alice_signup_def
        register_token_state_def empty_state_def strip_example_email strip_examples Let_def)

lemma alice_reset_fields:
  "ResetPasswordSerializer_to_internal_value True alice_reset_data = Inr alice_reset"
  by (simp add: ResetPasswordSerializer_to_internal_value_def run_validation_def CharField_validators_def
        EmailValidator_def alice_reset_data_def alice_reset_def
        strip_example_email strip_examples Let_def)

lemma alice_signup_is_valid:
  "SignupSerializer_is_valid True alice_signup_data 20 register_token_state = Inr alice_signup"
proof -
  have "SignupSerializer_validate alice_signup 20 register_token_state = Inr alice_signup"
    by (simp add: SignupSerializer_validate_cases alice_signup_def register_token_state_def
          empty_state_def cache_get_def)
  then show ?thesis
    by (simp add: SignupSerializer_is_valid_def alice_signup_fields)
qed

lemma signup_example:
  "SignupView_post True ''salt'' alice_signup_data 20 register_token_state =
     (Inr (Response
            (JObj [(''user'', JObj [(''id'', JStr ''1''), (''email'', JStr ''a@x.com''),
                                    (''first_name'', JStr ''A''), (''last_name'', JStr ''X'')]),
                   (''refresh'', JTok (JWT ''refresh'' (Some 1) 86420)),
                   (''access'', JTok (JWT ''access'' (Some 1) 1820))])
            HTTP_201_CREATED),
      register_token_state\<lparr>users := [alice], next_pk := 2\<rparr>)"
  unfolding SignupView_post_def alice_signup_is_valid
  by (simp add: SignupSerializer_create_def
        UserManager_create_user_def UserManager_create_user_impl_def Model_save_def
        set_password_def make_password_def User_model_def normalize_email_example
        RefreshToken_for_user_def REFRESH_TOKEN_LIFETIME_def ACCESS_TOKEN_LIFETIME_def
        alice_def alice_signup_def register_token_state_def empty_state_def
        str_1 Let_def)

lemma alice_reset_is_valid:
  "ResetPasswordSerializer_is_valid True alice_reset_data 30 reset_token_state = Inr alice_reset"
proof -
  have "ResetPasswordSerializer_validate alice_reset 30 reset_token_state = Inr alice_reset"
    by (simp add: ResetPasswordSerializer_validate_cases alice_reset_def reset_token_state_def
          empty_state_def cache_get_def)
  then show ?thesis
    by (simp add: ResetPasswordSerializer_is_valid_def alice_reset_fields)
qed

lemma reset_example:
  "ResetPasswordView_post True ''salt2'' alice_reset_data 30 reset_token_state =
     (Inr (Response (JObj [(''detail'', JStr ''Password has been reset successfully.'')]) HTTP_200_OK),
      reset_token_state\<lparr>users := [alice\<lparr>user_password := Hashed ''salt2'' ''secret2''\<rparr>]\<rparr>)"
  unfolding ResetPasswordView_post_def alice_reset_is_valid
  by (simp add: ResetPasswordSerializer_save_def Model_save_def set_password_def make_password_def
        User_objects_get_def alice_def alice_reset_def reset_token_state_def empty_state_def
        Let_def)

lemma SignupView_post_rows_saved:
  "rows_saved s \<Longrightarrow> rows_saved (snd (SignupView_post email_ok salt data now s))"
  by (auto simp: SignupView_post_def SignupSerializer_create_def UserManager_create_user_def
        UserManager_create_user_impl_def Let_def
        dest: Model_save_rows_saved split: sum.splits if_splits)

lemma ResetPasswordView_post_rows_saved:
  "rows_saved s \<Longrightarrow> rows_saved (snd (ResetPasswordView_post email_ok salt data now s))"
  by (auto simp: ResetPasswordView_post_def ResetPasswordSerializer_save_def Let_def
        dest: Model_save_rows_saved split: sum.splits option.splits)

section \<open>One-time use of a pending OTP\<close>

text \<open>
  Claim C1. Let \<open>send_otp_email\<close> have stored a code for an email and a purpose at \<open>t0\<close>,
  and let the store still hold that entry (it was not overwritten) before its 300 seconds
  are over. Then \<open>verify_otp\<close> with the stored code returns \<open>True\<close> and deletes the entry,
  and a second \<open>verify_otp\<close> with the same code, at any later instant, returns \<open>False\<close>.
\<close>

theorem verify_otp_one_time_use:
  assumes issued: "send_otp_email rnd email purpose t0 s0 = (code, s1)"
      and pending: "cache s (''otp:'' @ purpose @ '':'' @ email) = cache s1 (''otp:'' @ purpose @ '':'' @ email)"
      and live: "now < t0 + 300"
  shows "verify_otp email code purpose now s =
           (True, s\<lparr>cache := cache_delete (cache s) (''otp:'' @ purpose @ '':'' @ email)\<rparr>) \<and>
         cache (snd (verify_otp email code purpose now s)) (''otp:'' @ purpose @ '':'' @ email) = None \<and>
         (\<forall>now'. fst (verify_otp email code purpose now'
                        (snd (verify_otp email code purpose now s))) = False)"
proof -
  let ?key = "''otp:'' @ purpose @ '':'' @ email"
  have code: "code = generate_otp rnd 6"
    using issued send_otp_email_code [of rnd email purpose t0 s0] by simp
  have "cache s1 ?key = Some (code, t0 + 300)"
    using issued send_otp_email_cache [of rnd email purpose t0 s0] code by simp
  then have entry: "cache s ?key = Some (code, t0 + 300)"
    using pending by simp
  have got: "cache_get (cache s) ?key now = Some code"
    using entry live by (rule cache_get_live)
  have nonempty: "code \<noteq> []"
    using code generate_otp_nonempty by simp
  have ok: "fst (verify_otp email code purpose now s)"
    using got nonempty by (simp add: verify_otp_success_iff)
  then have after: "snd (verify_otp email code purpose now s) = s\<lparr>cache := cache_delete (cache s) ?key\<rparr>"
    by (rule verify_otp_success_state)
  have first: "verify_otp email code purpose now s = (True, s\<lparr>cache := cache_delete (cache s) ?key\<rparr>)"
    using ok after by (simp add: prod_eq_iff)
  have gone: "cache (snd (verify_otp email code purpose now s)) ?key = None"
    by (simp add: after cache_delete_def)
  have second: "fst (verify_otp email code purpose now' (snd (verify_otp email code purpose now s))) = False" for now'
    by (simp add: after verify_otp_success_iff cache_get_deleted)
  show ?thesis
    using first gone second by blast
qed

theorem verify_otp_one_time_use_witness:
  "verify_otp ''a@x.com'' ''012345'' ''register'' 10
       (snd (send_otp_email id ''a@x.com'' ''register'' 0 empty_state)) =
     (True, (snd (send_otp_email id ''a@x.com'' ''register'' 0 empty_state))
        \<lparr>cache := cache_delete (cache (snd (send_otp_email id ''a@x.com'' ''register'' 0 empty_state)))
                    ''otp:register:a@x.com''\<rparr>) \<and>
   fst (verify_otp ''a@x.com'' ''012345'' ''register'' 11
         (snd (verify_otp ''a@x.com'' ''012345'' ''register'' 10
           (snd (send_otp_email id ''a@x.com'' ''register'' 0 empty_state))))) = False"
proof -
  have issued: "send_otp_email id ''a@x.com'' ''register'' 0 empty_state =
      (''012345'', snd (send_otp_email id ''a@x.com'' ''register'' 0 empty_state))"
    using send_otp_email_code [of id "''a@x.com''" "''register''" 0 empty_state]
    by (simp add: prod_eq_iff generate_otp_example)
  have live: "(10::nat) < 0 + 300"
    by simp
  note once = verify_otp_one_time_use [OF issued refl live]
  from once have first:
    "verify_otp ''a@x.com'' ''012345'' ''register'' 10
       (snd (send_otp_email id ''a@x.com'' ''register'' 0 empty_state)) =
     (True, (snd (send_otp_email id ''a@x.com'' ''register'' 0 empty_state))
        \<lparr>cache := cache_delete (cache (snd (send_otp_email id ''a@x.com'' ''register'' 0 empty_state)))
                    (''otp:'' @ ''register'' @ '':'' @ ''a@x.com'')\<rparr>)"
    by (rule conjunct1)
  from once have second:
    "fst (verify_otp ''a@x.com'' ''012345'' ''register'' 11
         (snd (verify_otp ''a@x.com'' ''012345'' ''register'' 10
           (snd (send_otp_email id ''a@x.com'' ''register'' 0 empty_state))))) = False"
    by blast
  from first have first': "verify_otp ''a@x.com'' ''012345'' ''register'' 10
       (snd (send_otp_email id ''a@x.com'' ''register'' 0 empty_state)) =
     (True, (snd (send_otp_email id ''a@x.com'' ''register'' 0 empty_state))
        \<lparr>cache := cache_delete (cache (snd (send_otp_email id ''a@x.com'' ''register'' 0 empty_state)))
                    ''otp:register:a@x.com''\<rparr>)"
    by simp
  from first' second show ?thesis
    by (rule conjI)
qed

section \<open>A failed verification leaves the store as it was\<close>

text \<open>
  Claim C10. When \<open>verify_otp\<close> returns \<open>False\<close> (no live entry, or another code than
  the submitted one), the state is the one it was called in, also through the view; a
  pending code is therefore not consumed by a wrong guess, and verifies afterwards as long
  as its entry has not expired.
\<close>

theorem verify_otp_failure_keeps_store:
  assumes failed: "fst (verify_otp email otp purpose now s) = False"
  shows "snd (verify_otp email otp purpose now s) = s \<and>
         snd (VerifyOTPView_post uuid4 \<lparr>vo_email = email, vo_purpose = purpose, vo_otp = otp\<rparr> now s) = s \<and>
         (\<forall>code expires now'.
            cache s (''otp:'' @ purpose @ '':'' @ email) = Some (code, expires) \<and> code \<noteq> [] \<and> now' < expires \<longrightarrow>
            fst (verify_otp email code purpose now' (snd (verify_otp email otp purpose now s))))"
proof -
  have unchanged: "snd (verify_otp email otp purpose now s) = s"
    using failed by (simp add: verify_otp_failure_state)
  have view: "snd (VerifyOTPView_post uuid4 \<lparr>vo_email = email, vo_purpose = purpose, vo_otp = otp\<rparr> now s) = s"
    using failed by (simp add: VerifyOTPView_post_failure)
  have later: "fst (verify_otp email code purpose now' (snd (verify_otp email otp purpose now s)))"
    if "cache s (''otp:'' @ purpose @ '':'' @ email) = Some (code, expires)" "code \<noteq> []" "now' < expires"
    for code expires now'
    using that by (simp add: unchanged verify_otp_success_iff cache_get_live)
  show ?thesis
    using unchanged view later by blast
qed

theorem verify_otp_failure_keeps_store_witness:
  "snd (verify_otp ''a@x.com'' ''000000'' ''register'' 5
         (snd (send_otp_email id ''a@x.com'' ''register'' 0 empty_state))) =
     snd (send_otp_email id ''a@x.com'' ''register'' 0 empty_state) \<and>
   fst (verify_otp ''a@x.com'' ''012345'' ''register'' 10
         (snd (verify_otp ''a@x.com'' ''000000'' ''register'' 5
           (snd (send_otp_email id ''a@x.com'' ''register'' 0 empty_state)))))"
proof -
  let ?s = "snd (send_otp_email id ''a@x.com'' ''register'' 0 empty_state)"
  have entry: "cache ?s (''otp:'' @ ''register'' @ '':'' @ ''a@x.com'') = Some (''012345'', 300)"
    by (simp add: send_otp_email_cache generate_otp_example)
  have failed: "fst (verify_otp ''a@x.com'' ''000000'' ''register'' 5 ?s) = False"
    using entry by (simp add: verify_otp_success_iff cache_get_def)
  note kept = verify_otp_failure_keeps_store [OF failed, of "''t''"]
  from kept have unchanged: "snd (verify_otp ''a@x.com'' ''000000'' ''register'' 5 ?s) = ?s"
    by (rule conjunct1)
  from kept have
    "cache ?s (''otp:'' @ ''register'' @ '':'' @ ''a@x.com'') = Some (''012345'', 300) \<and>
       ''012345'' \<noteq> [] \<and> (10::nat) < 300 \<longrightarrow>
     fst (verify_otp ''a@x.com'' ''012345'' ''register'' 10
           (snd (verify_otp ''a@x.com'' ''000000'' ''register'' 5 ?s)))"
    by blast
  with entry have later:
    "fst (verify_otp ''a@x.com'' ''012345'' ''register'' 10
           (snd (verify_otp ''a@x.com'' ''000000'' ''register'' 5 ?s)))"
    by simp
  from unchanged later show ?thesis
    by (rule conjI)
qed

section \<open>Failures of verification look alike\<close>

text \<open>
  Claim C8. For every email, purpose and submitted code, \<open>verify_otp\<close> returns the same
  result in a state with no entry for the key as in a state that holds another code, and
  the view answers both with the same response: the caller cannot tell the two apart.
\<close>

theorem verify_otp_failure_indistinguishable:
  assumes absent: "cache s_absent (''otp:'' @ purpose @ '':'' @ email) = None"
      and stored: "cache s_wrong (''otp:'' @ purpose @ '':'' @ email) = Some (stored_otp, expires)"
      and wrong: "stored_otp \<noteq> otp"
  shows "fst (verify_otp email otp purpose now s_absent) = fst (verify_otp email otp purpose now s_wrong) \<and>
         fst (verify_otp email otp purpose now s_absent) = False \<and>
         fst (VerifyOTPView_post uuid4 \<lparr>vo_email = email, vo_purpose = purpose, vo_otp = otp\<rparr> now s_absent) =
         fst (VerifyOTPView_post uuid4 \<lparr>vo_email = email, vo_purpose = purpose, vo_otp = otp\<rparr> now s_wrong) \<and>
         fst (VerifyOTPView_post uuid4 \<lparr>vo_email = email, vo_purpose = purpose, vo_otp = otp\<rparr> now s_absent) =
           Inr (Response (JObj [(''detail'', JStr ''Invalid or expired OTP.'')]) HTTP_400_BAD_REQUEST)"
proof -
  have no_entry: "\<not> fst (verify_otp email otp purpose now s_absent)"
    using absent by (simp add: verify_otp_success_iff cache_get_def)
  have other_code: "\<not> fst (verify_otp email otp purpose now s_wrong)"
    using stored wrong by (simp add: verify_otp_success_iff cache_get_def)
  have view_absent:
    "fst (VerifyOTPView_post uuid4 \<lparr>vo_email = email, vo_purpose = purpose, vo_otp = otp\<rparr> now s_absent) =
       Inr (Response (JObj [(''detail'', JStr ''Invalid or expired OTP.'')]) HTTP_400_BAD_REQUEST)"
    using no_entry by (simp add: VerifyOTPView_post_failure)
  have view_wrong:
    "fst (VerifyOTPView_post uuid4 \<lparr>vo_email = email, vo_purpose = purpose, vo_otp = otp\<rparr> now s_wrong) =
       Inr (Response (JObj [(''detail'', JStr ''Invalid or expired OTP.'')]) HTTP_400_BAD_REQUEST)"
    using other_code by (simp add: VerifyOTPView_post_failure)
  show ?thesis
    using no_entry other_code view_absent view_wrong by simp
qed

theorem verify_otp_failure_indistinguishable_witness:
  "fst (verify_otp ''a@x.com'' ''000000'' ''register'' 5 empty_state) =
   fst (verify_otp ''a@x.com'' ''000000'' ''register'' 5
         (snd (send_otp_email id ''a@x.com'' ''register'' 0 empty_state))) \<and>
   fst (VerifyOTPView_post ''t'' \<lparr>vo_email = ''a@x.com'', vo_purpose = ''register'', vo_otp = ''000000''\<rparr> 5 empty_state) =
   fst (VerifyOTPView_post ''t'' \<lparr>vo_email = ''a@x.com'', vo_purpose = ''register'', vo_otp = ''000000''\<rparr> 5
         (snd (send_otp_email id ''a@x.com'' ''register'' 0 empty_state)))"
proof -
  let ?s = "snd (send_otp_email id ''a@x.com'' ''register'' 0 empty_state)"
  have absent: "cache empty_state (''otp:'' @ ''register'' @ '':'' @ ''a@x.com'') = None"
    by (simp add: empty_state_def)
  have stored: "cache ?s (''otp:'' @ ''register'' @ '':'' @ ''a@x.com'') = Some (''012345'', 300)"
    by (simp add: send_otp_email_cache generate_otp_example)
  have wrong: "''012345'' \<noteq> ''000000''"
    by simp
  show ?thesis
    using verify_otp_failure_indistinguishable [OF absent stored wrong, of 5 "''t''"] by simp
qed

section \<open>One pending OTP for a purpose and an email\<close>

text \<open>
  Claim C7, as stated, says that after a second request the previous code no longer
  verifies. The generator may draw the same six digits again, and then it does: here both
  requests draw 012345, and the code of the first request verifies after the second.
\<close>

theorem previous_code_verifies_counterexample:
  "fst (verify_otp ''a@x.com'' (fst (send_otp_email id ''a@x.com'' ''register'' 0 empty_state)) ''register'' 20
         (snd (send_otp_email id ''a@x.com'' ''register'' 10
           (snd (send_otp_email id ''a@x.com'' ''register'' 0 empty_state)))))"
  by (simp add: verify_otp_success_iff send_otp_email_code send_otp_email_cache
        generate_otp_example cache_get_def)

text \<open>
  Claim C7, amended. In every state at most one code verifies for a purpose and an email
  at a given instant. A request, whether or not a code is pending, overwrites the entry
  with the newly generated code and an expiry of 300 seconds from the request; after it a
  code verifies exactly when it is the new code and the 300 seconds are not over. So the
  previous code no longer verifies unless the generator drew the same code again.
\<close>

theorem send_otp_email_overwrites:
  "(\<forall>c c'. fst (verify_otp email c purpose now s) \<and> fst (verify_otp email c' purpose now s) \<longrightarrow> c = c') \<and>
   cache (snd (send_otp_email rnd email purpose t s)) (''otp:'' @ purpose @ '':'' @ email) =
     Some (generate_otp rnd 6, t + 300) \<and>
   (\<forall>c now'. fst (verify_otp email c purpose now' (snd (send_otp_email rnd email purpose t s))) \<longleftrightarrow>
      c = generate_otp rnd 6 \<and> now' < t + 300)"
proof -
  have one: "c = c'"
    if "fst (verify_otp email c purpose now s)" "fst (verify_otp email c' purpose now s)" for c c'
    using that by (simp add: verify_otp_success_iff)
  have entry: "cache (snd (send_otp_email rnd email purpose t s)) (''otp:'' @ purpose @ '':'' @ email) =
     Some (generate_otp rnd 6, t + 300)"
    by (simp add: send_otp_email_cache)
  have verdict: "fst (verify_otp email c purpose now' (snd (send_otp_email rnd email purpose t s))) \<longleftrightarrow>
      c = generate_otp rnd 6 \<and> now' < t + 300" for c now'
    using generate_otp_nonempty [of rnd]
    by (auto simp: verify_otp_success_iff send_otp_email_cache cache_get_def)
  show ?thesis
    using one entry verdict by blast
qed

theorem send_otp_email_overwrites_witness:
  "cache (snd (send_otp_email Suc ''a@x.com'' ''register'' 10
           (snd (send_otp_email id ''a@x.com'' ''register'' 0 empty_state)))) ''otp:register:a@x.com'' =
     Some (''123456'', 310) \<and>
   \<not> fst (verify_otp ''a@x.com'' ''012345'' ''register'' 20
         (snd (send_otp_email Suc ''a@x.com'' ''register'' 10
           (snd (send_otp_email id ''a@x.com'' ''register'' 0 empty_state))))) \<and>
   fst (verify_otp ''a@x.com'' ''123456'' ''register'' 20
         (snd (send_otp_email Suc ''a@x.com'' ''register'' 10
           (snd (send_otp_email id ''a@x.com'' ''register'' 0 empty_state)))))"
  using send_otp_email_overwrites [of "''a@x.com''" "''register''" 20
          "snd (send_otp_email id ''a@x.com'' ''register'' 0 empty_state)" Suc 10]
  by (simp add: generate_otp_example2)

section \<open>Registration needs the token of its email\<close>

text \<open>
  Claim C4, as stated, says that every signup request whose token has no entry, or the
  entry of another email, fails with \<open>InvalidToken\<close>. \<open>is_valid\<close> runs the field checks
  before \<open>validate\<close>: here the email of the request is already registered and the store
  has no entry for the token, and the view ends with the \<open>unique\<close> error of the email
  field; the token is never looked up.
\<close>

theorem signup_registered_email_counterexample:
  "cache_get (cache taken_state) (''verified:register:'' @ ''tok'') 20 = None \<and>
   SignupView_post True ''salt'' alice_signup_data 20 taken_state =
     (Inl (ValidationError (FieldErrors [(''email'', {''unique''})])), taken_state) \<and>
   ValidationError (FieldErrors [(''email'', {''unique''})]) \<noteq> InvalidToken"
proof -
  have absent: "cache_get (cache taken_state) (''verified:register:'' @ ''tok'') 20 = None"
    by (simp add: taken_state_def empty_state_def cache_get_def)
  have refused: "SignupSerializer_to_internal_value True alice_signup_data taken_state =
      Inl [(''email'', {''unique''})]"
    by (simp add: SignupSerializer_to_internal_value_def run_validation_def CharField_validators_def
          UniqueValidator_def EmailValidator_def alice_signup_data_def alice_def
          taken_state_def empty_state_def strip_example_email strip_examples Let_def)
  have view: "SignupView_post True ''salt'' alice_signup_data 20 taken_state =
     (Inl (ValidationError (FieldErrors [(''email'', {''unique''})])), taken_state)"
    using refused by (rule SignupView_post_field_errors)
  have other: "ValidationError (FieldErrors [(''email'', {''unique''})]) \<noteq> InvalidToken"
    by (simp add: InvalidToken_def)
  from absent view other show ?thesis
    by blast
qed

text \<open>
  Claim C4, amended. For every signup request whose fields pass the field checks of the
  serializer, whenever the store has no live entry under the key of the registration
  token, or the email stored under it is not the email of the request, \<open>validate\<close> raises
  the error the specification calls \<open>InvalidToken\<close>, the view ends with it, and the state,
  the user table with it, is the one the view was called in. A request whose fields fail
  the checks ends with the errors of the fields, the state unchanged as well. So the
  view creates a user only for a request whose fields pass and whose token has a live
  entry of its email.
\<close>

theorem signup_invalid_token:
  "(\<forall>a. SignupSerializer_to_internal_value email_ok data s = Inr a \<and>
        (cache_get (cache s) (''verified:register:'' @ su_verification_token a) now = None \<or>
         (\<exists>stored. cache_get (cache s) (''verified:register:'' @ su_verification_token a) now = Some stored \<and>
                   stored \<noteq> su_email a)) \<longrightarrow>
        SignupSerializer_validate a now s = Inl InvalidToken \<and>
        SignupView_post email_ok salt data now s = (Inl InvalidToken, s) \<and>
        users (snd (SignupView_post email_ok salt data now s)) = users s) \<and>
   (\<forall>errors. SignupSerializer_to_internal_value email_ok data s = Inl errors \<longrightarrow>
        SignupView_post email_ok salt data now s = (Inl (ValidationError (FieldErrors errors)), s) \<and>
        users (snd (SignupView_post email_ok salt data now s)) = users s) \<and>
   (\<forall>resp s1. SignupView_post email_ok salt data now s = (Inr resp, s1) \<longrightarrow>
        (\<exists>a. SignupSerializer_to_internal_value email_ok data s = Inr a \<and>
             cache_get (cache s) (''verified:register:'' @ su_verification_token a) now = Some (su_email a)))"
proof -
  have rejected: "SignupSerializer_validate a now s = Inl InvalidToken \<and>
        SignupView_post email_ok salt data now s = (Inl InvalidToken, s) \<and>
        users (snd (SignupView_post email_ok salt data now s)) = users s"
    if fields: "SignupSerializer_to_internal_value email_ok data s = Inr a"
      and bad: "cache_get (cache s) (''verified:register:'' @ su_verification_token a) now = None \<or>
         (\<exists>stored. cache_get (cache s) (''verified:register:'' @ su_verification_token a) now = Some stored \<and>
                   stored \<noteq> su_email a)"
    for a
  proof -
    from bad have "cache_get (cache s) (''verified:register:'' @ su_verification_token a) now \<noteq> Some (su_email a)"
      by auto
    then have invalid: "SignupSerializer_validate a now s = Inl InvalidToken"
      by (simp add: SignupSerializer_validate_cases)
    from SignupView_post_invalid [OF fields invalid]
    have "SignupView_post email_ok salt data now s = (Inl InvalidToken, s)" .
    with invalid show ?thesis
      by simp
  qed
  have refused: "SignupView_post email_ok salt data now s = (Inl (ValidationError (FieldErrors errors)), s) \<and>
        users (snd (SignupView_post email_ok salt data now s)) = users s"
    if "SignupSerializer_to_internal_value email_ok data s = Inl errors" for errors
    using SignupView_post_field_errors [OF that, of salt now] by simp
  have accepted: "\<exists>a. SignupSerializer_to_internal_value email_ok data s = Inr a \<and>
             cache_get (cache s) (''verified:register:'' @ su_verification_token a) now = Some (su_email a)"
    if ok: "SignupView_post email_ok salt data now s = (Inr resp, s1)" for resp s1
  proof -
    from SignupView_post_success [OF ok]
    obtain a where fields: "SignupSerializer_to_internal_value email_ok data s = Inr a"
      and valid: "SignupSerializer_validate a now s = Inr a"
      by blast
    from valid have "cache_get (cache s) (''verified:register:'' @ su_verification_token a) now = Some (su_email a)"
      by (simp add: SignupSerializer_validate_cases split: if_splits)
    with fields show ?thesis
      by blast
  qed
  from rejected refused accepted show ?thesis
    by blast
qed

theorem signup_invalid_token_witness:
  "SignupView_post True ''salt'' alice_signup_data 20 empty_state = (Inl InvalidToken, empty_state) \<and>
   SignupView_post True ''salt'' alice_signup_data 20 taken_state =
     (Inl (ValidationError (FieldErrors [(''email'', {''unique''})])), taken_state) \<and>
   cache_get (cache register_token_state) (''verified:register:'' @ ''tok'') 20 = Some ''a@x.com''"
proof -
  have fields: "SignupSerializer_to_internal_value True alice_signup_data empty_state = Inr alice_signup"
    by (simp add: SignupSerializer_to_internal_value_def run_validation_def CharField_validators_def
          UniqueValidator_def EmailValidator_def alice_signup_data_def alice_signup_def
          empty_state_def strip_example_email strip_examples Let_def)
  have absent: "cache_get (cache empty_state) (''verified:register:'' @ su_verification_token alice_signup) 20 = None"
    by (simp add: empty_state_def cache_get_def)
  have refused: "SignupSerializer_to_internal_value True alice_signup_data taken_state =
      Inl [(''email'', {''unique''})]"
    by (simp add: SignupSerializer_to_internal_value_def run_validation_def CharField_validators_def
          UniqueValidator_def EmailValidator_def alice_signup_data_def alice_def
          taken_state_def empty_state_def strip_example_email strip_examples Let_def)
  from signup_invalid_token [of True alice_signup_data empty_state 20 "''salt''"] fields absent
  have first: "SignupView_post True ''salt'' alice_signup_data 20 empty_state = (Inl InvalidToken, empty_state)"
    by blast
  from signup_invalid_token [of True alice_signup_data taken_state 20 "''salt''"] refused
  have second: "SignupView_post True ''salt'' alice_signup_data 20 taken_state =
     (Inl (ValidationError (FieldErrors [(''email'', {''unique''})])), taken_state)"
    by blast
  from signup_invalid_token [of True alice_signup_data register_token_state 20 "''salt''"] signup_example
  obtain a where "SignupSerializer_to_internal_value True alice_signup_data register_token_state = Inr a"
    and "cache_get (cache register_token_state) (''verified:register:'' @ su_verification_token a) 20 = Some (su_email a)"
    by blast
  then have third: "cache_get (cache register_token_state) (''verified:register:'' @ ''tok'') 20 = Some ''a@x.com''"
    by (auto simp: alice_signup_fields alice_signup_def)
  from first second third show ?thesis
    by blast
qed

section \<open>The two namespaces of verification tokens\<close>

text \<open>
  Claim C5, as stated, says that the password-reset path rejects every token minted under
  purpose \<open>register\<close>, and with \<open>InvalidToken\<close>. The view may draw the same UUID twice:
  here \<open>VerifyOTPView.post\<close> mints the token \<open>tok\<close> under \<open>reset\<close> and then again under
  \<open>register\<close>, and \<open>ResetPasswordSerializer.validate\<close> accepts the token minted under
  \<open>register\<close>. And the view checks the fields before the token: a reset request that
  carries a token minted under \<open>register\<close> and a new password of three characters ends
  with the \<open>min_length\<close> error of the field, not with \<open>InvalidToken\<close>.
\<close>

theorem token_of_both_purposes_counterexample:
  "fst (VerifyOTPView_post ''tok''
          \<lparr>vo_email = ''a@x.com'', vo_purpose = ''register'', vo_otp = ''012345''\<rparr> 15
          (snd (send_otp_email id ''a@x.com'' ''register'' 10
            (snd (VerifyOTPView_post ''tok''
                    \<lparr>vo_email = ''a@x.com'', vo_purpose = ''reset'', vo_otp = ''012345''\<rparr> 5
                    (snd (send_otp_email id ''a@x.com'' ''reset'' 0 empty_state))))))) =
     Inr (Response (JObj [(''detail'', JStr ''OTP verified successfully.''),
                          (''verification_token'', JStr ''tok'')]) HTTP_200_OK) \<and>
   ResetPasswordSerializer_validate
     \<lparr>rp_email = ''a@x.com'', rp_verification_token = ''tok'', rp_new_password = ''secret2''\<rparr> 20
     (snd (VerifyOTPView_post ''tok''
             \<lparr>vo_email = ''a@x.com'', vo_purpose = ''register'', vo_otp = ''012345''\<rparr> 15
             (snd (send_otp_email id ''a@x.com'' ''register'' 10
               (snd (VerifyOTPView_post ''tok''
                       \<lparr>vo_email = ''a@x.com'', vo_purpose = ''reset'', vo_otp = ''012345''\<rparr> 5
                       (snd (send_otp_email id ''a@x.com'' ''reset'' 0 empty_state)))))))) =
     Inr \<lparr>rp_email = ''a@x.com'', rp_verification_token = ''tok'', rp_new_password = ''secret2''\<rparr> \<and>
   fst (ResetPasswordView_post True ''salt2''
          \<lparr>rd_email = Text ''a@x.com'', rd_verification_token = Text ''tok'', rd_new_password = Text ''abc''\<rparr> 20
          (snd (VerifyOTPView_post ''tok''
                  \<lparr>vo_email = ''a@x.com'', vo_purpose = ''register'', vo_otp = ''012345''\<rparr> 10
                  (snd (send_otp_email id ''a@x.com'' ''register'' 0 empty_state))))) =
     Inl (ValidationError (FieldErrors [(''new_password'', {''min_length''})])) \<and>
   ValidationError (FieldErrors [(''new_password'', {''min_length''})]) \<noteq> InvalidToken"
proof -
  let ?reset = "\<lparr>vo_email = ''a@x.com'', vo_purpose = ''reset'', vo_otp = ''012345''\<rparr>"
  let ?register = "\<lparr>vo_email = ''a@x.com'', vo_purpose = ''register'', vo_otp = ''012345''\<rparr>"
  let ?s1 = "snd (send_otp_email id ''a@x.com'' ''reset'' 0 empty_state)"
  let ?s2 = "snd (VerifyOTPView_post ''tok'' ?reset 5 ?s1)"
  let ?s3 = "snd (send_otp_email id ''a@x.com'' ''register'' 10 ?s2)"
  let ?s4 = "snd (VerifyOTPView_post ''tok'' ?register 15 ?s3)"
  have v1: "fst (verify_otp (vo_email ?reset) (vo_otp ?reset) (vo_purpose ?reset) 5 ?s1)"
    by (simp add: verify_otp_success_iff send_otp_email_cache generate_otp_example cache_get_def)
  have c2: "cache ?s2 ''verified:reset:tok'' = Some (''a@x.com'', 605)"
    using VerifyOTPView_post_success [OF v1, of "''tok''"] by simp
  have c3: "cache ?s3 ''verified:reset:tok'' = Some (''a@x.com'', 605)"
    using c2 by (simp add: send_otp_email_cache)
  have v3: "fst (verify_otp (vo_email ?register) (vo_otp ?register) (vo_purpose ?register) 15 ?s3)"
    by (simp add: verify_otp_success_iff send_otp_email_cache generate_otp_example cache_get_def)
  note minted = VerifyOTPView_post_success [OF v3, of "''tok''"]
  have response: "fst (VerifyOTPView_post ''tok'' ?register 15 ?s3) =
     Inr (Response (JObj [(''detail'', JStr ''OTP verified successfully.''),
                          (''verification_token'', JStr ''tok'')]) HTTP_200_OK)"
    using minted by simp
  have c4: "cache ?s4 ''verified:reset:tok'' = Some (''a@x.com'', 605)"
    using minted c3 by simp
  have accepted: "ResetPasswordSerializer_validate
     \<lparr>rp_email = ''a@x.com'', rp_verification_token = ''tok'', rp_new_password = ''secret2''\<rparr> 20 ?s4 =
     Inr \<lparr>rp_email = ''a@x.com'', rp_verification_token = ''tok'', rp_new_password = ''secret2''\<rparr>"
    using c4 by (simp add: ResetPasswordSerializer_validate_cases cache_get_def)
  have refused: "ResetPasswordSerializer_to_internal_value True
     \<lparr>rd_email = Text ''a@x.com'', rd_verification_token = Text ''tok'', rd_new_password = Text ''abc''\<rparr> =
     Inl [(''new_password'', {''min_length''})]"
    by (simp add: ResetPasswordSerializer_to_internal_value_def run_validation_def CharField_validators_def
          EmailValidator_def strip_example_email strip_examples Let_def)
  have view: "fst (ResetPasswordView_post True ''salt2''
          \<lparr>rd_email = Text ''a@x.com'', rd_verification_token = Text ''tok'', rd_new_password = Text ''abc''\<rparr> 20
          (snd (VerifyOTPView_post ''tok'' ?register 10
                  (snd (send_otp_email id ''a@x.com'' ''register'' 0 empty_state))))) =
     Inl (ValidationError (FieldErrors [(''new_password'', {''min_length''})]))"
    using ResetPasswordView_post_field_errors [OF refused] by simp
  have other: "ValidationError (FieldErrors [(''new_password'', {''min_length''})]) \<noteq> InvalidToken"
    by (simp add: InvalidToken_def)
  from response accepted view other show ?thesis
    by blast
qed

text \<open>
  Claim C5, amended. When \<open>VerifyOTPView.post\<close> has verified a code under purpose
  \<open>register\<close> and minted a token, the verdict of the password-reset path on every token is
  what it was before, and the reset path rejects the minted token with \<open>InvalidToken\<close>
  unless the store already held it, live and for the email of the request, under the key
  of a reset token. The view answers \<open>InvalidToken\<close> when the fields of the request pass the
  field checks, and succeeds only with a token that was a live reset token before the
  minting. The same holds with the purposes exchanged, for the registration path. The
  keys of the two namespaces are never equal.
\<close>

theorem verification_token_namespaces:
  assumes verified: "fst (verify_otp email otp purpose t0 s)"
  shows "(purpose = ''register'' \<longrightarrow>
            (\<forall>a now. ResetPasswordSerializer_validate a now
                        (snd (VerifyOTPView_post token \<lparr>vo_email = email, vo_purpose = purpose, vo_otp = otp\<rparr> t0 s)) =
                      ResetPasswordSerializer_validate a now s) \<and>
            (\<forall>a now. rp_verification_token a = token \<and>
                      cache_get (cache s) (''verified:reset:'' @ token) now \<noteq> Some (rp_email a) \<longrightarrow>
                  ResetPasswordSerializer_validate a now
                    (snd (VerifyOTPView_post token \<lparr>vo_email = email, vo_purpose = purpose, vo_otp = otp\<rparr> t0 s)) =
                  Inl InvalidToken) \<and>
            (\<forall>data a now. ResetPasswordSerializer_to_internal_value email_ok data = Inr a \<and>
                      rp_verification_token a = token \<and>
                      cache_get (cache s) (''verified:reset:'' @ token) now \<noteq> Some (rp_email a) \<longrightarrow>
                  fst (ResetPasswordView_post email_ok salt data now
                    (snd (VerifyOTPView_post token \<lparr>vo_email = email, vo_purpose = purpose, vo_otp = otp\<rparr> t0 s))) =
                  Inl InvalidToken) \<and>
            (\<forall>data now resp s2.
                  ResetPasswordView_post email_ok salt data now
                    (snd (VerifyOTPView_post token \<lparr>vo_email = email, vo_purpose = purpose, vo_otp = otp\<rparr> t0 s)) =
                  (Inr resp, s2) \<longrightarrow>
                  (\<exists>a. ResetPasswordSerializer_to_internal_value email_ok data = Inr a \<and>
                       cache_get (cache s) (''verified:reset:'' @ rp_verification_token a) now =
                         Some (rp_email a)))) \<and>
         (purpose = ''reset'' \<longrightarrow>
            (\<forall>a now. SignupSerializer_validate a now
                        (snd (VerifyOTPView_post token \<lparr>vo_email = email, vo_purpose = purpose, vo_otp = otp\<rparr> t0 s)) =
                      SignupSerializer_validate a now s) \<and>
            (\<forall>a now. su_verification_token a = token \<and>
                      cache_get (cache s) (''verified:register:'' @ token) now \<noteq> Some (su_email a) \<longrightarrow>
                  SignupSerializer_validate a now
                    (snd (VerifyOTPView_post token \<lparr>vo_email = email, vo_purpose = purpose, vo_otp = otp\<rparr> t0 s)) =
                  Inl InvalidToken) \<and>
            (\<forall>data a now.
                  SignupSerializer_to_internal_value email_ok data
                    (snd (VerifyOTPView_post token \<lparr>vo_email = email, vo_purpose = purpose, vo_otp = otp\<rparr> t0 s)) =
                  Inr a \<and>
                  su_verification_token a = token \<and>
                  cache_get (cache s) (''verified:register:'' @ token) now \<noteq> Some (su_email a) \<longrightarrow>
                  fst (SignupView_post email_ok salt data now
                    (snd (VerifyOTPView_post token \<lparr>vo_email = email, vo_purpose = purpose, vo_otp = otp\<rparr> t0 s))) =
                  Inl InvalidToken) \<and>
            (\<forall>data now resp s2.
                  SignupView_post email_ok salt data now
                    (snd (VerifyOTPView_post token \<lparr>vo_email = email, vo_purpose = purpose, vo_otp = otp\<rparr> t0 s)) =
                  (Inr resp, s2) \<longrightarrow>
                  (\<exists>a. SignupSerializer_to_internal_value email_ok data
                         (snd (VerifyOTPView_post token \<lparr>vo_email = email, vo_purpose = purpose, vo_otp = otp\<rparr> t0 s)) =
                       Inr a \<and>
                       cache_get (cache s) (''verified:register:'' @ su_verification_token a) now =
                         Some (su_email a))))"
proof -
  let ?s1 = "snd (VerifyOTPView_post token \<lparr>vo_email = email, vo_purpose = purpose, vo_otp = otp\<rparr> t0 s)"
  have minted: "cache ?s1 = (cache s)(''otp:'' @ purpose @ '':'' @ email := None,
                                      ''verified:'' @ purpose @ '':'' @ token \<mapsto> (email, t0 + 600))"
    using verified by (simp add: VerifyOTPView_post_success)
  have reset_ns: "cache ?s1 (''verified:reset:'' @ t) = cache s (''verified:reset:'' @ t)"
    if "purpose = ''register''" for t
    unfolding minted using that by simp
  have register_ns: "cache ?s1 (''verified:register:'' @ t) = cache s (''verified:register:'' @ t)"
    if "purpose = ''reset''" for t
    unfolding minted using that by simp
  have reset_same: "ResetPasswordSerializer_validate a now ?s1 = ResetPasswordSerializer_validate a now s"
    if "purpose = ''register''" for a now
    using reset_ns [OF that, of "rp_verification_token a"]
    by (simp add: ResetPasswordSerializer_validate_cases cache_get_def)
  have register_same: "SignupSerializer_validate a now ?s1 = SignupSerializer_validate a now s"
    if "purpose = ''reset''" for a now
    using register_ns [OF that, of "su_verification_token a"]
    by (simp add: SignupSerializer_validate_cases cache_get_def)
  have reset_rejects: "ResetPasswordSerializer_validate a now ?s1 = Inl InvalidToken"
    if "purpose = ''register''" "rp_verification_token a = token"
       "cache_get (cache s) (''verified:reset:'' @ token) now \<noteq> Some (rp_email a)"
    for a now
    using that reset_same [of a now]
    by (simp add: ResetPasswordSerializer_validate_cases)
  have register_rejects: "SignupSerializer_validate a now ?s1 = Inl InvalidToken"
    if "purpose = ''reset''" "su_verification_token a = token"
       "cache_get (cache s) (''verified:register:'' @ token) now \<noteq> Some (su_email a)"
    for a now
    using that register_same [of a now]
    by (simp add: SignupSerializer_validate_cases)
  have reset_view: "fst (ResetPasswordView_post email_ok salt data now ?s1) = Inl InvalidToken"
    if "purpose = ''register''" "ResetPasswordSerializer_to_internal_value email_ok data = Inr a"
       "rp_verification_token a = token"
       "cache_get (cache s) (''verified:reset:'' @ token) now \<noteq> Some (rp_email a)"
    for data a now
    using ResetPasswordView_post_invalid [OF that(2) reset_rejects [OF that(1,3,4)], of salt] by simp
  have register_view: "fst (SignupView_post email_ok salt data now ?s1) = Inl InvalidToken"
    if "purpose = ''reset''" "SignupSerializer_to_internal_value email_ok data ?s1 = Inr a"
       "su_verification_token a = token"
       "cache_get (cache s) (''verified:register:'' @ token) now \<noteq> Some (su_email a)"
    for data a now
    using SignupView_post_invalid [OF that(2) register_rejects [OF that(1,3,4)], of salt] by simp
  have reset_success: "\<exists>a. ResetPasswordSerializer_to_internal_value email_ok data = Inr a \<and>
        cache_get (cache s) (''verified:reset:'' @ rp_verification_token a) now = Some (rp_email a)"
    if "purpose = ''register''" "ResetPasswordView_post email_ok salt data now ?s1 = (Inr resp, s2)"
    for data now resp s2
  proof -
    from ResetPasswordView_post_success [OF that(2)]
    obtain a where fields: "ResetPasswordSerializer_to_internal_value email_ok data = Inr a"
      and valid: "ResetPasswordSerializer_validate a now ?s1 = Inr a"
      by blast
    from valid reset_same [OF that(1), of a now]
    have "cache_get (cache s) (''verified:reset:'' @ rp_verification_token a) now = Some (rp_email a)"
      by (simp add: ResetPasswordSerializer_validate_cases split: if_splits)
    with fields show ?thesis
      by blast
  qed
  have register_success: "\<exists>a. SignupSerializer_to_internal_value email_ok data ?s1 = Inr a \<and>
        cache_get (cache s) (''verified:register:'' @ su_verification_token a) now = Some (su_email a)"
    if "purpose = ''reset''" "SignupView_post email_ok salt data now ?s1 = (Inr resp, s2)"
    for data now resp s2
  proof -
    from SignupView_post_success [OF that(2)]
    obtain a where fields: "SignupSerializer_to_internal_value email_ok data ?s1 = Inr a"
      and valid: "SignupSerializer_validate a now ?s1 = Inr a"
      by blast
    from valid register_same [OF that(1), of a now]
    have "cache_get (cache s) (''verified:register:'' @ su_verification_token a) now = Some (su_email a)"
      by (simp add: SignupSerializer_validate_cases split: if_splits)
    with fields show ?thesis
      by blast
  qed
  have register_part: "purpose = ''register'' \<longrightarrow>
            (\<forall>a now. ResetPasswordSerializer_validate a now ?s1 = ResetPasswordSerializer_validate a now s) \<and>
            (\<forall>a now. rp_verification_token a = token \<and>
                      cache_get (cache s) (''verified:reset:'' @ token) now \<noteq> Some (rp_email a) \<longrightarrow>
                  ResetPasswordSerializer_validate a now ?s1 = Inl InvalidToken) \<and>
            (\<forall>data a now. ResetPasswordSerializer_to_internal_value email_ok data = Inr a \<and>
                      rp_verification_token a = token \<and>
                      cache_get (cache s) (''verified:reset:'' @ token) now \<noteq> Some (rp_email a) \<longrightarrow>
                  fst (ResetPasswordView_post email_ok salt data now ?s1) = Inl InvalidToken) \<and>
            (\<forall>data now resp s2.
                  ResetPasswordView_post email_ok salt data now ?s1 = (Inr resp, s2) \<longrightarrow>
                  (\<exists>a. ResetPasswordSerializer_to_internal_value email_ok data = Inr a \<and>
                       cache_get (cache s) (''verified:reset:'' @ rp_verification_token a) now =
                         Some (rp_email a)))"
    using reset_same reset_rejects reset_view reset_success by blast
  have reset_part: "purpose = ''reset'' \<longrightarrow>
            (\<forall>a now. SignupSerializer_validate a now ?s1 = SignupSerializer_validate a now s) \<and>
            (\<forall>a now. su_verification_token a = token \<and>
                      cache_get (cache s) (''verified:register:'' @ token) now \<noteq> Some (su_email a) \<longrightarrow>
                  SignupSerializer_validate a now ?s1 = Inl InvalidToken) \<and>
            (\<forall>data a now.
                  SignupSerializer_to_internal_value email_ok data ?s1 = Inr a \<and>
                  su_verification_token a = token \<and>
                  cache_get (cache s) (''verified:register:'' @ token) now \<noteq> Some (su_email a) \<longrightarrow>
                  fst (SignupView_post email_ok salt data now ?s1) = Inl InvalidToken) \<and>
            (\<forall>data now resp s2.
                  SignupView_post email_ok salt data now ?s1 = (Inr resp, s2) \<longrightarrow>
                  (\<exists>a. SignupSerializer_to_internal_value email_ok data ?s1 = Inr a \<and>
                       cache_get (cache s) (''verified:register:'' @ su_verification_token a) now =
                         Some (su_email a)))"
    using register_same register_rejects register_view register_success by blast
  from register_part reset_part show ?thesis
    by (rule conjI)
qed

theorem verification_token_namespaces_witness:
  "fst (ResetPasswordView_post True ''salt2''
      \<lparr>rd_email = Text ''a@x.com'', rd_verification_token = Text ''tok'', rd_new_password = Text ''secret2''\<rparr> 20
      (snd (VerifyOTPView_post ''tok'' \<lparr>vo_email = ''a@x.com'', vo_purpose = ''register'', vo_otp = ''012345''\<rparr> 10
             (snd (send_otp_email id ''a@x.com'' ''register'' 0 empty_state))))) = Inl InvalidToken \<and>
   SignupSerializer_validate alice_signup 20
      (snd (VerifyOTPView_post ''tok'' \<lparr>vo_email = ''a@x.com'', vo_purpose = ''reset'', vo_otp = ''012345''\<rparr> 10
             (snd (send_otp_email id ''a@x.com'' ''reset'' 0 empty_state)))) = Inl InvalidToken"
proof -
  let ?reg = "snd (send_otp_email id ''a@x.com'' ''register'' 0 empty_state)"
  let ?res = "snd (send_otp_email id ''a@x.com'' ''reset'' 0 empty_state)"
  let ?data = "\<lparr>rd_email = Text ''a@x.com'', rd_verification_token = Text ''tok'', rd_new_password = Text ''secret2''\<rparr>"
  let ?a = "\<lparr>rp_email = ''a@x.com'', rp_verification_token = ''tok'', rp_new_password = ''secret2''\<rparr>"
  have reg_verified: "fst (verify_otp ''a@x.com'' ''012345'' ''register'' 10 ?reg)"
    by (simp add: verify_otp_success_iff send_otp_email_cache generate_otp_example cache_get_def)
  have res_verified: "fst (verify_otp ''a@x.com'' ''012345'' ''reset'' 10 ?res)"
    by (simp add: verify_otp_success_iff send_otp_email_cache generate_otp_example cache_get_def)
  have fields: "ResetPasswordSerializer_to_internal_value True ?data = Inr ?a"
    by (simp add: ResetPasswordSerializer_to_internal_value_def run_validation_def CharField_validators_def
          EmailValidator_def strip_example_email strip_examples Let_def)
  have reg_token: "rp_verification_token ?a = ''tok''"
    by simp
  have reg_other: "cache_get (cache ?reg) (''verified:reset:'' @ ''tok'') 20 \<noteq> Some (rp_email ?a)"
    by (simp add: send_otp_email_cache empty_state_def cache_get_def)
  have res_token: "su_verification_token alice_signup = ''tok''"
    by (simp add: alice_signup_def)
  have res_other: "cache_get (cache ?res) (''verified:register:'' @ ''tok'') 20 \<noteq> Some (su_email alice_signup)"
    by (simp add: send_otp_email_cache empty_state_def cache_get_def)
  from verification_token_namespaces [OF reg_verified, of "''tok''" True "''salt2''"]
    fields reg_token reg_other
  have first: "fst (ResetPasswordView_post True ''salt2'' ?data 20
      (snd (VerifyOTPView_post ''tok'' \<lparr>vo_email = ''a@x.com'', vo_purpose = ''register'', vo_otp = ''012345''\<rparr> 10 ?reg))) =
      Inl InvalidToken"
    by blast
  from verification_token_namespaces [OF res_verified, of "''tok''" True "''salt''"]
    res_token res_other
  have second: "SignupSerializer_validate alice_signup 20
      (snd (VerifyOTPView_post ''tok'' \<lparr>vo_email = ''a@x.com'', vo_purpose = ''reset'', vo_otp = ''012345''\<rparr> 10 ?res)) =
      Inl InvalidToken"
    by blast
  from first second show ?thesis
    by (rule conjI)
qed

section \<open>The user that registration creates\<close>

text \<open>
  Claim C2 says that the user a successful registration creates has \<open>is_verified\<close> true.
  The code does otherwise: \<open>SignupSerializer.create\<close> passes the email, the names and the
  password to \<open>create_user\<close>, nothing sets \<open>is_verified\<close>, and the field keeps the default
  of the model. For every successful \<open>SignupView.post\<close> the table gains one row, of the
  normalised email, whose \<open>is_verified\<close> is false.
\<close>

theorem signup_creates_unverified_user:
  assumes created: "SignupView_post email_ok salt data now s = (Inr resp, s1)"
  shows "\<exists>a u. SignupSerializer_to_internal_value email_ok data s = Inr a \<and>
               users s1 = users s @ [u] \<and> user_email u = normalize_email (su_email a) \<and>
               is_verified u = False"
proof -
  from SignupView_post_success [OF created]
  obtain a u where fields: "SignupSerializer_to_internal_value email_ok data s = Inr a"
    and valid: "SignupSerializer_validate a now s = Inr a"
    and made: "SignupSerializer_create salt a s = Inr (u, s1)"
    by blast
  from SignupSerializer_create_result [OF made]
  have rows: "users s1 = users s @ [u]"
    and row: "u = (set_password salt (su_password a)
                 (User_model (normalize_email (su_email a))
                    \<lparr>ef_first_name = su_first_name a, ef_last_name = su_last_name a,
                     ef_is_staff = Some False, ef_is_superuser = Some False\<rparr>))\<lparr>pk := Some (next_pk s)\<rparr>"
    by simp_all
  from row have "user_email u = normalize_email (su_email a)" and "is_verified u = False"
    by (simp_all add: set_password_def User_model_def)
  with fields rows show ?thesis
    by blast
qed

theorem signup_creates_unverified_user_witness:
  "status_code (projr (fst (SignupView_post True ''salt'' alice_signup_data 20 register_token_state))) = 201 \<and>
   map is_verified (users (snd (SignupView_post True ''salt'' alice_signup_data 20 register_token_state))) = [False]"
proof -
  from signup_creates_unverified_user [OF signup_example]
  obtain u where "users (register_token_state\<lparr>users := [alice], next_pk := 2\<rparr>) = users register_token_state @ [u]"
    and "is_verified u = False"
    by blast
  then have "map is_verified (users (register_token_state\<lparr>users := [alice], next_pk := 2\<rparr>)) = [False]"
    by (simp add: register_token_state_def empty_state_def)
  then show ?thesis
    by (simp add: signup_example HTTP_201_CREATED_def)
qed

text \<open>
  The legacy flow does set the field when it has verified the code kept on the row:
  \<open>VerifyEmailView.post\<close> saves the user with \<open>is_verified\<close> true.
\<close>

lemma VerifyEmailView_post_sets_is_verified:
  assumes found: "User_objects_get (users s) email = Some u"
      and rows: "rows_saved s"
      and code: "user_otp u = Some otp" "otp \<noteq> []"
      and fresh: "otp_created_at u = Some t" "now - t \<le> 300"
  shows "\<exists>s1. VerifyEmailView_post email otp now s =
                (Inr (Response (JObj [(''detail'', JStr ''Email verified successfully. You can now login.'')])
                       HTTP_200_OK), s1) \<and>
              User_objects_get (users s1) email =
                Some (u\<lparr>is_verified := True, user_otp := None, otp_created_at := None\<rparr>) \<and>
              is_verified (u\<lparr>is_verified := True, user_otp := None, otp_created_at := None\<rparr>)"
proof -
  let ?u1 = "u\<lparr>is_verified := True, user_otp := None, otp_created_at := None\<rparr>"
  from rows_saved_get [OF rows found] obtain i where key: "pk u = Some i"
    by blast
  have same_email: "user_email ?u1 = email"
    using User_objects_get_email [OF found] by simp
  have lookup: "User_objects_get (map (\<lambda>v. if pk v = pk u then ?u1 else v) (users s)) email = Some ?u1"
    using found same_email by (simp add: User_objects_get_def find_update_row)
  have "VerifyEmailView_post email otp now s =
      (Inr (Response (JObj [(''detail'', JStr ''Email verified successfully. You can now login.'')])
             HTTP_200_OK),
       s\<lparr>users := map (\<lambda>v. if pk v = pk u then ?u1 else v) (users s)\<rparr>)"
    using found key code fresh
    by (simp add: VerifyEmailView_post_def VerifyEmailSerializer_validate_email_def Model_save_def)
  with lookup show ?thesis
    by simp
qed

section \<open>Login to a disabled account\<close>

text \<open>
  Claim C3 says that a login with the correct password to an account whose \<open>is_active\<close> is
  false fails with \<open>AccountDisabled\<close> and never with \<open>InvalidCredentials\<close>. The code does
  otherwise under the backends of settings.py: \<open>authenticate\<close> already refuses the
  disabled user, so \<open>LoginSerializer.validate\<close> raises "Invalid email or password."
  (\<open>InvalidCredentials\<close>), and its test of \<open>is_active\<close> is never reached.
\<close>

theorem login_disabled_account_invalid_credentials:
  assumes found: "User_objects_get (users s) (li_email a) = Some u"
      and password: "check_password (li_password a) u"
      and disabled: "\<not> is_active u"
  shows "LoginSerializer_validate AUTHENTICATION_BACKENDS a s = Inl InvalidCredentials \<and>
         LoginSerializer_validate AUTHENTICATION_BACKENDS a s \<noteq> Inl AccountDisabled \<and>
         LoginView_post AUTHENTICATION_BACKENDS a now s = (Inl InvalidCredentials, s)"
proof -
  have "ModelBackend_authenticate (users s) (li_email a) (li_password a) = None"
    using found disabled by (simp add: ModelBackend_authenticate_def user_can_authenticate_def)
  then have refused: "LoginSerializer_validate AUTHENTICATION_BACKENDS a s = Inl InvalidCredentials"
    by (simp add: LoginSerializer_validate_def authenticate_default InvalidCredentials_def)
  then have view: "LoginView_post AUTHENTICATION_BACKENDS a now s = (Inl InvalidCredentials, s)"
    by (simp add: LoginView_post_def)
  from refused view show ?thesis
    by (simp add: InvalidCredentials_not_AccountDisabled)
qed

theorem login_disabled_account_invalid_credentials_witness:
  "check_password ''secret1'' (alice\<lparr>is_active := False\<rparr>) \<and>
   LoginView_post AUTHENTICATION_BACKENDS alice_login 30 disabled_state =
     (Inl (ValidationError (Message ''Invalid email or password.'')), disabled_state)"
proof -
  have found: "User_objects_get (users disabled_state) (li_email alice_login) = Some (alice\<lparr>is_active := False\<rparr>)"
    by (simp add: User_objects_get_def disabled_state_def alice_login_def alice_def empty_state_def)
  have password: "check_password (li_password alice_login) (alice\<lparr>is_active := False\<rparr>)"
    by (simp add: check_password_def alice_login_def alice_def)
  have disabled: "\<not> is_active (alice\<lparr>is_active := False\<rparr>)"
    by simp
  from login_disabled_account_invalid_credentials [OF found password disabled, of 30] password
  show ?thesis
    by (simp add: InvalidCredentials_def alice_login_def)
qed

section \<open>Password reset with a valid token\<close>

text \<open>
  Claim C6, as stated, speaks of every call that carries a valid reset token. \<open>is_valid\<close>
  checks the fields first, and \<open>new_password\<close> has \<open>min_length=6\<close>: here the token is valid
  for the email and the user exists, but the new password has three characters; the view
  ends with the \<open>min_length\<close> error of the field and the stored hash is the old one.
\<close>

theorem reset_short_password_counterexample:
  "ResetPasswordSerializer_validate
     \<lparr>rp_email = ''a@x.com'', rp_verification_token = ''tok2'', rp_new_password = ''abc''\<rparr> 30
     reset_token_state =
     Inr \<lparr>rp_email = ''a@x.com'', rp_verification_token = ''tok2'', rp_new_password = ''abc''\<rparr> \<and>
   User_objects_get (users reset_token_state) ''a@x.com'' = Some alice \<and>
   ResetPasswordView_post True ''salt2''
     \<lparr>rd_email = Text ''a@x.com'', rd_verification_token = Text ''tok2'', rd_new_password = Text ''abc''\<rparr> 30
     reset_token_state =
     (Inl (ValidationError (FieldErrors [(''new_password'', {''min_length''})])), reset_token_state) \<and>
   check_password ''abc'' alice = False"
proof -
  have valid: "ResetPasswordSerializer_validate
     \<lparr>rp_email = ''a@x.com'', rp_verification_token = ''tok2'', rp_new_password = ''abc''\<rparr> 30
     reset_token_state =
     Inr \<lparr>rp_email = ''a@x.com'', rp_verification_token = ''tok2'', rp_new_password = ''abc''\<rparr>"
    by (simp add: ResetPasswordSerializer_validate_cases reset_token_state_def empty_state_def cache_get_def)
  have found: "User_objects_get (users reset_token_state) ''a@x.com'' = Some alice"
    by (simp add: User_objects_get_def reset_token_state_def empty_state_def alice_def)
  have refused: "ResetPasswordSerializer_to_internal_value True
     \<lparr>rd_email = Text ''a@x.com'', rd_verification_token = Text ''tok2'', rd_new_password = Text ''abc''\<rparr> =
     Inl [(''new_password'', {''min_length''})]"
    by (simp add: ResetPasswordSerializer_to_internal_value_def run_validation_def CharField_validators_def
          EmailValidator_def strip_example_email strip_examples Let_def)
  have view: "ResetPasswordView_post True ''salt2''
     \<lparr>rd_email = Text ''a@x.com'', rd_verification_token = Text ''tok2'', rd_new_password = Text ''abc''\<rparr> 30
     reset_token_state =
     (Inl (ValidationError (FieldErrors [(''new_password'', {''min_length''})])), reset_token_state)"
    using refused by (rule ResetPasswordView_post_field_errors)
  have old: "check_password ''abc'' alice = False"
    by (simp add: check_password_def alice_def)
  from valid found view old show ?thesis
    by blast
qed

text \<open>
  Claim C6, amended. Let the fields of the request pass the field checks of the serializer
  (the new password then has six characters or more) and let the reset token be valid for
  the email (\<open>validate\<close> passes). If the table has no user of that email, the view ends
  with the error the specification calls \<open>UserNotFound\<close> and changes nothing. Otherwise it
  answers 200, and the user of that email then carries the hash of the new password (as
  the field check delivers it, stripped), which \<open>check_password\<close> accepts. No successful
  response has an \<open>access\<close> or a \<open>refresh\<close> key.
\<close>

theorem reset_password_with_valid_token:
  assumes fields: "ResetPasswordSerializer_to_internal_value email_ok data = Inr a"
      and valid: "ResetPasswordSerializer_validate a now s = Inr a"
      and rows: "rows_saved s"
  shows "(User_objects_get (users s) (rp_email a) = None \<longrightarrow>
            ResetPasswordView_post email_ok salt data now s = (Inl UserNotFound, s)) \<and>
         (\<forall>u. User_objects_get (users s) (rp_email a) = Some u \<longrightarrow>
            (\<exists>s1. ResetPasswordView_post email_ok salt data now s =
                     (Inr (Response (JObj [(''detail'', JStr ''Password has been reset successfully.'')])
                            HTTP_200_OK), s1) \<and>
                   User_objects_get (users s1) (rp_email a) = Some (set_password salt (rp_new_password a) u) \<and>
                   user_password (set_password salt (rp_new_password a) u) =
                     make_password salt (rp_new_password a) \<and>
                   check_password (rp_new_password a) (set_password salt (rp_new_password a) u))) \<and>
         (\<forall>resp s1. ResetPasswordView_post email_ok salt data now s = (Inr resp, s1) \<longrightarrow>
            ''access'' \<notin> set (json_keys (response_data resp)) \<and>
            ''refresh'' \<notin> set (json_keys (response_data resp)))"
proof -
  have missing: "ResetPasswordView_post email_ok salt data now s = (Inl UserNotFound, s)"
    if "User_objects_get (users s) (rp_email a) = None"
  proof -
    from that have "ResetPasswordSerializer_save salt a s = Inl UserNotFound"
      by (simp add: ResetPasswordSerializer_save_def UserNotFound_def Let_def)
    with fields valid show ?thesis
      by (rule ResetPasswordView_post_save_error)
  qed
  have replaced:
    "\<exists>s1. ResetPasswordView_post email_ok salt data now s =
             (Inr (Response (JObj [(''detail'', JStr ''Password has been reset successfully.'')])
                    HTTP_200_OK), s1) \<and>
           User_objects_get (users s1) (rp_email a) = Some (set_password salt (rp_new_password a) u) \<and>
           user_password (set_password salt (rp_new_password a) u) = make_password salt (rp_new_password a) \<and>
           check_password (rp_new_password a) (set_password salt (rp_new_password a) u)"
    if found: "User_objects_get (users s) (rp_email a) = Some u" for u
  proof -
    let ?u1 = "set_password salt (rp_new_password a) u"
    let ?s1 = "s\<lparr>users := map (\<lambda>v. if pk v = pk u then ?u1 else v) (users s)\<rparr>"
    from rows_saved_get [OF rows found] obtain i where key: "pk u = Some i"
      by blast
    have save: "ResetPasswordSerializer_save salt a s = Inr (?u1, ?s1)"
      using ResetPasswordSerializer_save_found [OF found key, of salt] key by simp
    from fields valid save
    have view: "ResetPasswordView_post email_ok salt data now s =
        (Inr (Response (JObj [(''detail'', JStr ''Password has been reset successfully.'')]) HTTP_200_OK), ?s1)"
      by (rule ResetPasswordView_post_saved)
    have same_email: "user_email ?u1 = rp_email a"
      using User_objects_get_email [OF found] by (simp add: set_password_def)
    have lookup: "User_objects_get (users ?s1) (rp_email a) = Some ?u1"
      using found same_email by (simp add: User_objects_get_def find_update_row)
    have hash: "user_password ?u1 = make_password salt (rp_new_password a)"
      by (simp add: set_password_def)
    from view lookup hash check_password_set_password show ?thesis
      by blast
  qed
  have no_tokens: "''access'' \<notin> set (json_keys (response_data resp)) \<and>
                   ''refresh'' \<notin> set (json_keys (response_data resp))"
    if "ResetPasswordView_post email_ok salt data now s = (Inr resp, s1)" for resp s1
    using that
    by (auto simp: ResetPasswordView_post_def split: sum.splits)
  from missing replaced no_tokens show ?thesis
    by blast
qed

theorem reset_password_with_valid_token_witness:
  "ResetPasswordView_post True ''salt2'' alice_reset_data 30 reset_token_state =
     (Inr (Response (JObj [(''detail'', JStr ''Password has been reset successfully.'')]) HTTP_200_OK),
      reset_token_state\<lparr>users := [alice\<lparr>user_password := Hashed ''salt2'' ''secret2''\<rparr>]\<rparr>) \<and>
   check_password ''secret2'' (alice\<lparr>user_password := Hashed ''salt2'' ''secret2''\<rparr>) \<and>
   ResetPasswordView_post True ''salt2'' alice_reset_data 30 (reset_token_state\<lparr>users := []\<rparr>) =
     (Inl UserNotFound, reset_token_state\<lparr>users := []\<rparr>)"
proof -
  have valid: "ResetPasswordSerializer_validate alice_reset 30 reset_token_state = Inr alice_reset"
    by (simp add: ResetPasswordSerializer_validate_cases alice_reset_def reset_token_state_def
          empty_state_def cache_get_def)
  have rows: "rows_saved reset_token_state"
    by (simp add: rows_saved_def reset_token_state_def empty_state_def alice_def)
  have found: "User_objects_get (users reset_token_state) (rp_email alice_reset) = Some alice"
    by (simp add: User_objects_get_def reset_token_state_def empty_state_def alice_reset_def alice_def)
  have valid0: "ResetPasswordSerializer_validate alice_reset 30 (reset_token_state\<lparr>users := []\<rparr>) = Inr alice_reset"
    by (simp add: ResetPasswordSerializer_validate_cases alice_reset_def reset_token_state_def
          empty_state_def cache_get_def)
  have rows0: "rows_saved (reset_token_state\<lparr>users := []\<rparr>)"
    by (simp add: rows_saved_def)
  have missing: "User_objects_get (users (reset_token_state\<lparr>users := []\<rparr>)) (rp_email alice_reset) = None"
    by (simp add: User_objects_get_def)
  from reset_password_with_valid_token [OF alice_reset_fields valid rows, of "''salt2''"] found
  have "check_password (rp_new_password alice_reset) (set_password ''salt2'' (rp_new_password alice_reset) alice)"
    by blast
  then have verifies: "check_password ''secret2'' (alice\<lparr>user_password := Hashed ''salt2'' ''secret2''\<rparr>)"
    by (simp add: set_password_def make_password_def alice_reset_def)
  from reset_password_with_valid_token [OF alice_reset_fields valid0 rows0, of "''salt2''"] missing
  have not_found: "ResetPasswordView_post True ''salt2'' alice_reset_data 30 (reset_token_state\<lparr>users := []\<rparr>) =
     (Inl UserNotFound, reset_token_state\<lparr>users := []\<rparr>)"
    by blast
  from reset_example verifies not_found show ?thesis
    by blast
qed

section \<open>A verification token is not consumed\<close>

text \<open>
  Claim C9. \<open>VerifyOTPView.post\<close> stores a token to expire 600 seconds later. A successful
  \<open>SignupView.post\<close> or \<open>ResetPasswordView.post\<close> leaves the store exactly as it was: the
  entry of the token it has validated is still there, and the same token and email pass
  the serializer's \<open>validate\<close> again at every instant before the entry expires.
\<close>

theorem verification_token_not_consumed:
  "(fst (verify_otp email otp purpose t0 s0) \<longrightarrow>
      cache (snd (VerifyOTPView_post token \<lparr>vo_email = email, vo_purpose = purpose, vo_otp = otp\<rparr> t0 s0))
        (''verified:'' @ purpose @ '':'' @ token) = Some (email, t0 + 600)) \<and>
   (SignupView_post email_ok salt data now s = (Inr resp, s1) \<longrightarrow>
      cache s1 = cache s \<and>
      (\<exists>a expires. SignupSerializer_to_internal_value email_ok data s = Inr a \<and>
         cache s1 (''verified:register:'' @ su_verification_token a) = Some (su_email a, expires) \<and>
         now < expires \<and>
         (\<forall>now'. now' < expires \<longrightarrow> SignupSerializer_validate a now' s1 = Inr a))) \<and>
   (ResetPasswordView_post email_ok2 salt2 data2 now2 s2 = (Inr resp2, s3) \<longrightarrow>
      cache s3 = cache s2 \<and>
      (\<exists>b expires. ResetPasswordSerializer_to_internal_value email_ok2 data2 = Inr b \<and>
         cache s3 (''verified:reset:'' @ rp_verification_token b) = Some (rp_email b, expires) \<and>
         now2 < expires \<and>
         (\<forall>now'. now' < expires \<longrightarrow> ResetPasswordSerializer_validate b now' s3 = Inr b)))"
proof -
  have minted: "cache (snd (VerifyOTPView_post token \<lparr>vo_email = email, vo_purpose = purpose, vo_otp = otp\<rparr> t0 s0))
        (''verified:'' @ purpose @ '':'' @ token) = Some (email, t0 + 600)"
    if "fst (verify_otp email otp purpose t0 s0)"
    using that by (simp add: VerifyOTPView_post_success)
  have signup: "cache s1 = cache s \<and>
      (\<exists>a expires. SignupSerializer_to_internal_value email_ok data s = Inr a \<and>
         cache s1 (''verified:register:'' @ su_verification_token a) = Some (su_email a, expires) \<and>
         now < expires \<and>
         (\<forall>now'. now' < expires \<longrightarrow> SignupSerializer_validate a now' s1 = Inr a))"
    if ok: "SignupView_post email_ok salt data now s = (Inr resp, s1)"
  proof -
    from SignupView_post_success [OF ok]
    obtain a u where fields: "SignupSerializer_to_internal_value email_ok data s = Inr a"
      and valid: "SignupSerializer_validate a now s = Inr a"
      and created: "SignupSerializer_create salt a s = Inr (u, s1)"
      by blast
    from created have same: "cache s1 = cache s"
      by (simp add: SignupSerializer_create_frame)
    from valid have nonempty: "su_email a \<noteq> []"
      and got: "cache_get (cache s) (''verified:register:'' @ su_verification_token a) now = Some (su_email a)"
      by (simp_all add: SignupSerializer_validate_cases split: if_splits)
    from got obtain expires
      where entry: "cache s (''verified:register:'' @ su_verification_token a) = Some (su_email a, expires)"
        and live: "now < expires"
      by (auto simp: cache_get_def split: option.splits if_splits)
    have again: "SignupSerializer_validate a now' s1 = Inr a" if "now' < expires" for now'
      using that entry nonempty by (simp add: SignupSerializer_validate_cases same cache_get_def)
    from same fields entry live again show ?thesis
      by auto
  qed
  have reset: "cache s3 = cache s2 \<and>
      (\<exists>b expires. ResetPasswordSerializer_to_internal_value email_ok2 data2 = Inr b \<and>
         cache s3 (''verified:reset:'' @ rp_verification_token b) = Some (rp_email b, expires) \<and>
         now2 < expires \<and>
         (\<forall>now'. now' < expires \<longrightarrow> ResetPasswordSerializer_validate b now' s3 = Inr b))"
    if ok: "ResetPasswordView_post email_ok2 salt2 data2 now2 s2 = (Inr resp2, s3)"
  proof -
    from ResetPasswordView_post_success [OF ok]
    obtain b u where fields: "ResetPasswordSerializer_to_internal_value email_ok2 data2 = Inr b"
      and valid: "ResetPasswordSerializer_validate b now2 s2 = Inr b"
      and saved: "ResetPasswordSerializer_save salt2 b s2 = Inr (u, s3)"
      by blast
    from saved have same: "cache s3 = cache s2"
      by (simp add: ResetPasswordSerializer_save_frame)
    from valid have nonempty: "rp_email b \<noteq> []"
      and got: "cache_get (cache s2) (''verified:reset:'' @ rp_verification_token b) now2 = Some (rp_email b)"
      by (simp_all add: ResetPasswordSerializer_validate_cases split: if_splits)
    from got obtain expires
      where entry: "cache s2 (''verified:reset:'' @ rp_verification_token b) = Some (rp_email b, expires)"
        and live: "now2 < expires"
      by (auto simp: cache_get_def split: option.splits if_splits)
    have again: "ResetPasswordSerializer_validate b now' s3 = Inr b" if "now' < expires" for now'
      using that entry nonempty by (simp add: ResetPasswordSerializer_validate_cases same cache_get_def)
    from same fields entry live again show ?thesis
      by auto
  qed
  from minted signup reset show ?thesis
    by blast
qed

theorem verification_token_not_consumed_witness:
  "cache (snd (VerifyOTPView_post ''tok''
                 \<lparr>vo_email = ''a@x.com'', vo_purpose = ''register'', vo_otp = ''012345''\<rparr> 10
                 (snd (send_otp_email id ''a@x.com'' ''register'' 0 empty_state))))
     ''verified:register:tok'' = Some (''a@x.com'', 610) \<and>
   cache (snd (SignupView_post True ''salt'' alice_signup_data 20 register_token_state)) =
     cache register_token_state \<and>
   SignupSerializer_validate alice_signup 609
     (snd (SignupView_post True ''salt'' alice_signup_data 20 register_token_state)) = Inr alice_signup \<and>
   cache (snd (ResetPasswordView_post True ''salt2'' alice_reset_data 30 reset_token_state)) =
     cache reset_token_state \<and>
   ResetPasswordSerializer_validate alice_reset 699
     (snd (ResetPasswordView_post True ''salt2'' alice_reset_data 30 reset_token_state)) = Inr alice_reset"
proof -
  let ?s1 = "register_token_state\<lparr>users := [alice], next_pk := 2\<rparr>"
  let ?s3 = "reset_token_state\<lparr>users := [alice\<lparr>user_password := Hashed ''salt2'' ''secret2''\<rparr>]\<rparr>"
  note kept = verification_token_not_consumed
    [of "''a@x.com''" "''012345''" "''register''" 10
        "snd (send_otp_email id ''a@x.com'' ''register'' 0 empty_state)" "''tok''"
        True "''salt''" alice_signup_data 20 register_token_state _ ?s1
        True "''salt2''" alice_reset_data 30 reset_token_state _ ?s3]
  have verified: "fst (verify_otp ''a@x.com'' ''012345'' ''register'' 10
                        (snd (send_otp_email id ''a@x.com'' ''register'' 0 empty_state)))"
    by (simp add: verify_otp_success_iff send_otp_email_cache generate_otp_example cache_get_def)
  from kept verified have
    "cache (snd (VerifyOTPView_post ''tok''
                 \<lparr>vo_email = ''a@x.com'', vo_purpose = ''register'', vo_otp = ''012345''\<rparr> 10
                 (snd (send_otp_email id ''a@x.com'' ''register'' 0 empty_state))))
       (''verified:'' @ ''register'' @ '':'' @ ''tok'') = Some (''a@x.com'', 10 + 600)"
    by blast
  then have minted:
    "cache (snd (VerifyOTPView_post ''tok''
                 \<lparr>vo_email = ''a@x.com'', vo_purpose = ''register'', vo_otp = ''012345''\<rparr> 10
                 (snd (send_otp_email id ''a@x.com'' ''register'' 0 empty_state))))
       ''verified:register:tok'' = Some (''a@x.com'', 610)"
    by simp
  from kept signup_example obtain a e1
    where same1: "cache ?s1 = cache register_token_state"
      and fields1: "SignupSerializer_to_internal_value True alice_signup_data register_token_state = Inr a"
      and entry1: "cache ?s1 (''verified:register:'' @ su_verification_token a) = Some (su_email a, e1)"
      and again1: "\<forall>now'. now' < e1 \<longrightarrow> SignupSerializer_validate a now' ?s1 = Inr a"
    by blast
  from fields1 have a: "a = alice_signup"
    by (simp add: alice_signup_fields)
  from entry1 have "e1 = 610"
    by (simp add: a register_token_state_def alice_signup_def)
  with again1 have signup: "SignupSerializer_validate alice_signup 609 ?s1 = Inr alice_signup"
    by (simp add: a)
  from kept reset_example obtain b e3
    where same3: "cache ?s3 = cache reset_token_state"
      and fields3: "ResetPasswordSerializer_to_internal_value True alice_reset_data = Inr b"
      and entry3: "cache ?s3 (''verified:reset:'' @ rp_verification_token b) = Some (rp_email b, e3)"
      and again3: "\<forall>now'. now' < e3 \<longrightarrow> ResetPasswordSerializer_validate b now' ?s3 = Inr b"
    by blast
  from fields3 have b: "b = alice_reset"
    by (simp add: alice_reset_fields)
  from entry3 have "e3 = 700"
    by (simp add: b reset_token_state_def alice_reset_def)
  with again3 have reset: "ResetPasswordSerializer_validate alice_reset 699 ?s3 = Inr alice_reset"
    by (simp add: b)
  from same1 signup same3 reset have rest:
    "cache (snd (SignupView_post True ''salt'' alice_signup_data 20 register_token_state)) =
       cache register_token_state \<and>
     SignupSerializer_validate alice_signup 609
       (snd (SignupView_post True ''salt'' alice_signup_data 20 register_token_state)) = Inr alice_signup \<and>
     cache (snd (ResetPasswordView_post True ''salt2'' alice_reset_data 30 reset_token_state)) =
       cache reset_token_state \<and>
     ResetPasswordSerializer_validate alice_reset 699
       (snd (ResetPasswordView_post True ''salt2'' alice_reset_data 30 reset_token_state)) = Inr alice_reset"
    by (simp add: signup_example reset_example)
  from minted rest show ?thesis
    by (rule conjI)
qed

end
